theory Spec2Isabelle
  imports Complex_Main
begin

section \<open>Errors and Python built-ins\<close>

text \<open>
  Python floats are modelled as \<^typ>\<open>real\<close>, so the rounding of floating-point
  arithmetic is left out, and Python ints as \<^typ>\<open>int\<close>. Every \<^verbatim>\<open>raise\<close> of the
  source is a value \<open>Inl e\<close> of the result type \<open>error + 'a\<close>; an error stands for an
  instance of \<^verbatim>\<open>Exception\<close>, which is what the handlers of the source catch. A
  message built with an f-string is cut to its fixed part.
\<close>

datatype error =
    ValueError string
  | KeyError string
  | AttributeError string
  | StatisticsError string
  | ValidationError string
  | ProviderError string

text \<open>Sequencing of steps that may raise: the first error ends the computation.\<close>

definition bind_err :: "error + 'a \<Rightarrow> ('a \<Rightarrow> error + 'b) \<Rightarrow> error + 'b" where
  "bind_err r f = (case r of Inl e \<Rightarrow> Inl e | Inr x \<Rightarrow> f x)"

text \<open>
  Values of type \<^verbatim>\<open>Any\<close> and the nested mappings built by \<^verbatim>\<open>model_dump\<close> and
  \<^verbatim>\<open>to_dict\<close> are JSON values; a \<^verbatim>\<open>dict\<close> keeps its keys in insertion order.
\<close>

datatype json =
    JNull
  | JBool bool
  | JInt int
  | JFloat real
  | JStr string
  | JList "json list"
  | JDict "(string \<times> json) list"

text \<open>\<^verbatim>\<open>d.get(k, default)\<close>.\<close>

definition dict_get :: "(string \<times> 'v) list \<Rightarrow> string \<Rightarrow> 'v \<Rightarrow> 'v" where
  "dict_get d k dflt = (case map_of d k of None \<Rightarrow> dflt | Some v \<Rightarrow> v)"

text \<open>
  \<^verbatim>\<open>round(x, ndigits)\<close> on a float: the nearest multiple of \<open>10 ^ -ndigits\<close>,
  a tie going to the even neighbour.
\<close>

definition round_half_even :: "real \<Rightarrow> int" where
  "round_half_even y =
     (let f = \<lfloor>y\<rfloor>; d = y - of_int f in
      if d < 1 / 2 then f
      else if 1 / 2 < d then f + 1
      else if even f then f else f + 1)"

definition py_round :: "real \<Rightarrow> nat \<Rightarrow> real" where
  "py_round x ndigits = of_int (round_half_even (x * 10 ^ ndigits)) / 10 ^ ndigits"

text \<open>\<^verbatim>\<open>int(x)\<close> on a float truncates towards zero.\<close>

definition py_int :: "real \<Rightarrow> int" where
  "py_int x = (if 0 \<le> x then \<lfloor>x\<rfloor> else \<lceil>x\<rceil>)"

section \<open>core/config.py\<close>

record CreativityConfig =
  creativity_level :: real
  quality_threshold :: real

text \<open>The dataclass constructor followed by \<^verbatim>\<open>__post_init__\<close>.\<close>

definition mk_CreativityConfig :: "real \<Rightarrow> real \<Rightarrow> error + CreativityConfig" where
  "mk_CreativityConfig cl qt =
     (if \<not> (0 \<le> cl \<and> cl \<le> 1) then
        Inl (ValueError ''creativity_level must be between 0.0 and 1.0'')
      else if \<not> (0 \<le> qt \<and> qt \<le> 1) then
        Inl (ValueError ''quality_threshold must be between 0.0 and 1.0'')
      else Inr \<lparr>creativity_level = cl, quality_threshold = qt\<rparr>)"

record EngineParameters =
  temperature :: real
  top_p :: real
  num_branches :: int
  ep_quality_threshold :: real

definition mk_EngineParameters :: "real \<Rightarrow> real \<Rightarrow> int \<Rightarrow> real \<Rightarrow> error + EngineParameters" where
  "mk_EngineParameters t p n qt =
     (if \<not> (0 \<le> t \<and> t \<le> 2) then
        Inl (ValueError ''temperature should be between 0.0 and 2.0'')
      else if \<not> (0 \<le> p \<and> p \<le> 1) then
        Inl (ValueError ''top_p must be between 0.0 and 1.0'')
      else if n < 1 then
        Inl (ValueError ''num_branches must be at least 1'')
      else Inr \<lparr>temperature = t, top_p = p, num_branches = n, ep_quality_threshold = qt\<rparr>)"

definition map_creativity :: "real \<Rightarrow> real \<Rightarrow> error + EngineParameters" where
  "map_creativity cl qt =
     (let level = max 0 (min 1 cl) in
      mk_EngineParameters
        (py_round (0.4 + 0.8 * level) 2)
        (py_round (0.6 + 0.4 * level) 2)
        (max 2 (py_int (2 + 6 * level)))
        qt)"

section \<open>generation/models.py: concepts and their scores\<close>

record Concept =
  title :: string
  description :: string
  hook_idea :: string

record ConceptScore =
  quality_score :: real
  reason :: string

record ScoredConcept =
  concept :: Concept
  score :: ConceptScore

text \<open>The property \<^verbatim>\<open>ScoredConcept.quality_score\<close>.\<close>

definition sc_quality_score :: "ScoredConcept \<Rightarrow> real" where
  "sc_quality_score sc = quality_score (score sc)"

section \<open>generation/generator.py: selection\<close>

text \<open>
  \<^verbatim>\<open>max(xs, key=k)\<close>: one pass from the left that replaces the current best only by
  an element with a strictly greater key, so the first maximal element is returned; it
  raises \<open>ValueError\<close> on an empty sequence.
\<close>

fun py_max_loop :: "('a \<Rightarrow> real) \<Rightarrow> 'a \<Rightarrow> 'a list \<Rightarrow> 'a" where
  "py_max_loop key best [] = best"
| "py_max_loop key best (x # xs) = py_max_loop key (if key best < key x then x else best) xs"

definition py_max_by :: "('a \<Rightarrow> real) \<Rightarrow> 'a list \<Rightarrow> error + 'a" where
  "py_max_by key xs =
     (case xs of
        [] \<Rightarrow> Inl (ValueError ''max() arg is an empty sequence'')
      | x # rest \<Rightarrow> Inr (py_max_loop key x rest))"

text \<open>
  \<^verbatim>\<open>ContentGenerator._get_params\<close>: the parameters are computed from the configuration
  on first use and kept; the kept value is the one computed here.
\<close>

definition get_params :: "CreativityConfig \<Rightarrow> error + EngineParameters" where
  "get_params config = map_creativity (creativity_level config) (quality_threshold config)"

definition select_best_concept :: "CreativityConfig \<Rightarrow> ScoredConcept list \<Rightarrow> error + ScoredConcept" where
  "select_best_concept config scored_concepts =
     (case get_params config of
        Inl e \<Rightarrow> Inl e
      | Inr params \<Rightarrow>
          (let valid_concepts =
                 filter (\<lambda>sc. ep_quality_threshold params \<le> sc_quality_score sc) scored_concepts;
               valid_concepts = (if valid_concepts = [] then scored_concepts else valid_concepts)
           in if valid_concepts = [] then
                Inl (ValueError ''No scored concepts available for selection.'')
              else py_max_by sc_quality_score valid_concepts))"

section \<open>generation/models.py: the video script schema\<close>

text \<open>
  A \<^verbatim>\<open>Literal[...]\<close> field holds a string; the allowed values are checked when the
  object is validated. The field \<^verbatim>\<open>id\<close> of \<^verbatim>\<open>Scene\<close> is \<open>scene_id\<close> here.
\<close>

record VideoMeta =
  duration_seconds :: int
  platform :: string

record Audio =
  music :: "string option"
  sfx :: "string option"

record Scene =
  scene_id :: int
  start_sec :: real
  end_sec :: real
  role :: string
  visual :: string
  camera :: string
  action :: string
  dialogue :: string
  on_screen_text :: "string option"
  audio :: Audio
  notes_for_model :: "string option"

record VideoScript =
  video_meta :: VideoMeta
  scenes :: "Scene list"

definition platform_literals :: "string list" where
  "platform_literals = [''tiktok'', ''instagram'', ''youtube_shorts'', ''linkedin'']"

definition role_literals :: "string list" where
  "role_literals = [''hook'', ''problem'', ''solution'', ''cta'', ''other'']"

subsection \<open>\<^verbatim>\<open>model_dump\<close>\<close>

text \<open>
  Pydantic derives \<^verbatim>\<open>model_dump\<close> from the class declaration: a mapping from each
  declared field, in declaration order, to its dumped value; nested models are dumped
  in turn and \<^verbatim>\<open>None\<close> stays \<^verbatim>\<open>None\<close>.
\<close>

definition dump_opt_str :: "string option \<Rightarrow> json" where
  "dump_opt_str v = (case v of None \<Rightarrow> JNull | Some s \<Rightarrow> JStr s)"

definition VideoMeta_model_dump :: "VideoMeta \<Rightarrow> json" where
  "VideoMeta_model_dump m =
     JDict [(''duration_seconds'', JInt (duration_seconds m)),
            (''platform'', JStr (platform m))]"

definition Audio_model_dump :: "Audio \<Rightarrow> json" where
  "Audio_model_dump a =
     JDict [(''music'', dump_opt_str (music a)), (''sfx'', dump_opt_str (sfx a))]"

definition Scene_model_dump :: "Scene \<Rightarrow> json" where
  "Scene_model_dump sc =
     JDict [(''id'', JInt (scene_id sc)),
            (''start_sec'', JFloat (start_sec sc)),
            (''end_sec'', JFloat (end_sec sc)),
            (''role'', JStr (role sc)),
            (''visual'', JStr (visual sc)),
            (''camera'', JStr (camera sc)),
            (''action'', JStr (action sc)),
            (''dialogue'', JStr (dialogue sc)),
            (''on_screen_text'', dump_opt_str (on_screen_text sc)),
            (''audio'', Audio_model_dump (audio sc)),
            (''notes_for_model'', dump_opt_str (notes_for_model sc))]"

definition VideoScript_model_dump :: "VideoScript \<Rightarrow> json" where
  "VideoScript_model_dump v =
     JDict [(''video_meta'', VideoMeta_model_dump (video_meta v)),
            (''scenes'', JList (map Scene_model_dump (scenes v)))]"

text \<open>
  The drafted content has type \<^verbatim>\<open>Any\<close>: an instance of the schema of the content
  type. \<^verbatim>\<open>VideoScript\<close> is the only schema of the repository; an instance of any
  other schema is represented by its \<^verbatim>\<open>model_dump\<close>.
\<close>

datatype content = VideoScript_content VideoScript | Other_content json

fun model_dump :: "content \<Rightarrow> json" where
  "model_dump (VideoScript_content v) = VideoScript_model_dump v"
| "model_dump (Other_content j) = j"

section \<open>evaluation/models.py\<close>

text \<open>
  Field names used by several classes carry a prefix here: \<open>criterion_score\<close> and
  \<open>criterion_reason\<close> are \<^verbatim>\<open>CriterionScore.score\<close> and \<^verbatim>\<open>.reason\<close>,
  \<open>criterion_mean\<close> and \<open>criterion_std\<close> the fields of \<^verbatim>\<open>CriterionStats\<close>,
  \<open>tb_\<close> and \<open>pb_\<close> mark the fields of the two blocks.
\<close>

record CriterionScore =
  criterion_score :: real
  criterion_reason :: string

record GenericJudgeOutput =
  hook_originality :: CriterionScore
  visual_creativity :: CriterionScore
  narrative_originality :: CriterionScore
  entertainment_value :: CriterionScore
  brand_integration :: CriterionScore
  platform_fit :: CriterionScore
  overall_creativity :: CriterionScore

text \<open>\<^verbatim>\<open>PersonaJudgeOutput\<close> declares the same seven fields and \<^verbatim>\<open>persona\<close>.\<close>

record PersonaJudgeOutput = GenericJudgeOutput +
  persona :: string

record EvaluationStats =
  mean :: real
  std :: real

record CriterionStats =
  criterion_mean :: real
  criterion_std :: real

text \<open>The constructors check \<^verbatim>\<open>Field(..., ge=0.0)\<close> on \<^verbatim>\<open>std\<close>.\<close>

definition mk_EvaluationStats :: "real \<Rightarrow> real \<Rightarrow> error + EvaluationStats" where
  "mk_EvaluationStats m s =
     (if \<not> 0 \<le> s then Inl (ValidationError ''std: Input should be greater than or equal to 0'')
      else Inr \<lparr>mean = m, std = s\<rparr>)"

definition mk_CriterionStats :: "real \<Rightarrow> real \<Rightarrow> error + CriterionStats" where
  "mk_CriterionStats m s =
     (if \<not> 0 \<le> s then Inl (ValidationError ''std: Input should be greater than or equal to 0'')
      else Inr \<lparr>criterion_mean = m, criterion_std = s\<rparr>)"

record temperature_entry =
  te_temperature :: real
  te_overall_creativity :: real
  te_judge_output :: GenericJudgeOutput

record persona_entry =
  pe_persona :: string
  pe_overall_creativity :: real
  pe_judge_output :: PersonaJudgeOutput

record TemperatureBlock =
  tb_overall :: EvaluationStats
  tb_criteria :: "string \<rightharpoonup> CriterionStats"
  by_temperature :: "temperature_entry list"

record PersonaBlock =
  pb_overall :: EvaluationStats
  pb_criteria :: "string \<rightharpoonup> CriterionStats"
  by_persona :: "persona_entry list"

record AggregateResults =
  overall :: EvaluationStats
  criteria :: "string \<rightharpoonup> CriterionStats"

record CreativityAssessmentResult =
  car_temperature_block :: "TemperatureBlock option"
  car_persona_block :: "PersonaBlock option"
  car_aggregate :: AggregateResults
  car_raw_judge_outputs :: "(string \<times> json list) list option"

text \<open>
  What validation guarantees of a block: every \<^verbatim>\<open>std\<close> field passed the check
  \<^verbatim>\<open>ge=0.0\<close> when its object was constructed.
\<close>

definition TemperatureBlock_valid :: "TemperatureBlock \<Rightarrow> bool" where
  "TemperatureBlock_valid b \<longleftrightarrow>
     0 \<le> std (tb_overall b) \<and> (\<forall>name cs. tb_criteria b name = Some cs \<longrightarrow> 0 \<le> criterion_std cs)"

definition PersonaBlock_valid :: "PersonaBlock \<Rightarrow> bool" where
  "PersonaBlock_valid b \<longleftrightarrow>
     0 \<le> std (pb_overall b) \<and> (\<forall>name cs. pb_criteria b name = Some cs \<longrightarrow> 0 \<le> criterion_std cs)"


section \<open>core/enums.py and the provider interface of core/llm.py\<close>

datatype ContentType =
    VIDEO_SCRIPT
  | LINKEDIN_POST
  | TWITTER_THREAD
  | EMAIL_COPY
  | REDDIT_POST
  | AD_COPY

text \<open>
  A prompt is a template with the keyword arguments of \<^verbatim>\<open>str.format\<close> and the lines
  appended to the formatted text. The templates are long string constants that no
  decision of the program reads; each is represented by the name of its constant. A
  JSON text passed as an argument is represented by the value it renders.
\<close>

record prompt =
  template :: string
  format_args :: "(string \<times> json) list"
  appended :: "string list"

definition plain_prompt :: "string \<Rightarrow> prompt" where
  "plain_prompt t = \<lparr>template = t, format_args = [], appended = []\<rparr>"

definition format_prompt :: "string \<Rightarrow> (string \<times> json) list \<Rightarrow> prompt" where
  "format_prompt t args = \<lparr>template = t, format_args = args, appended = []\<rparr>"

record llm_request =
  system_prompt :: prompt
  user_prompt :: prompt
  req_output_schema :: string
  req_temperature :: real
  req_top_p :: real

record IdeationOutput =
  io_concepts :: "Concept list"

text \<open>
  \<^verbatim>\<open>LLMProvider.generate\<close> returns an instance of the requested schema or raises, and
  it acts on the world outside the program: a call takes the state \<open>'s\<close> of that world
  and returns the new one, so two calls with the same arguments may answer
  differently. There is one function per result type.
\<close>

record 's LLMProvider =
  generate_IdeationOutput :: "llm_request \<Rightarrow> 's \<Rightarrow> (error + IdeationOutput) \<times> 's"
  generate_ConceptScore :: "llm_request \<Rightarrow> 's \<Rightarrow> (error + ConceptScore) \<times> 's"
  generate_content :: "llm_request \<Rightarrow> 's \<Rightarrow> (error + content) \<times> 's"
  generate_GenericJudgeOutput :: "llm_request \<Rightarrow> 's \<Rightarrow> (error + GenericJudgeOutput) \<times> 's"
  generate_PersonaJudgeOutput :: "llm_request \<Rightarrow> 's \<Rightarrow> (error + PersonaJudgeOutput) \<times> 's"

section \<open>evaluation/evaluator.py\<close>

subsection \<open>The \<^verbatim>\<open>statistics\<close> module\<close>

definition statistics_mean :: "real list \<Rightarrow> error + real" where
  "statistics_mean xs =
     (if xs = [] then Inl (StatisticsError ''mean requires at least one data point'')
      else Inr (sum_list xs / real (length xs)))"

definition statistics_stdev :: "real list \<Rightarrow> error + real" where
  "statistics_stdev xs =
     (if length xs < 2 then Inl (StatisticsError ''stdev requires at least two data points'')
      else
        (let m = sum_list xs / real (length xs);
             ss = sum_list (map (\<lambda>x. (x - m)\<^sup>2) xs)
         in Inr (sqrt (ss / real (length xs - 1)))))"

subsection \<open>Personas and prompts\<close>

record persona_def =
  persona_name :: string
  persona_description :: string

text \<open>The eight personas; each description is cut here to its first sentence.\<close>

definition ALL_PERSONAS :: "persona_def list" where
  "ALL_PERSONAS =
     [\<lparr>persona_name = ''Senior Creative Director'',
       persona_description = ''You are a top-tier agency Creative Director with 15+ years of experience in crafting high-impact advertising concepts.''\<rparr>,
      \<lparr>persona_name = ''TikTok Native UGC Creator'',
       persona_description = ''You are a full-time TikTok creator specialized in UGC ads.''\<rparr>,
      \<lparr>persona_name = ''Performance Marketer'',
       persona_description = ''You are a performance-driven marketer focused on conversions, retention, and messaging clarity.''\<rparr>,
      \<lparr>persona_name = ''Meme Culture Editor'',
       persona_description = ''You are a humor-first meme editor living inside TikTok culture.''\<rparr>,
      \<lparr>persona_name = ''Cinematographer / Visual Director'',
       persona_description = ''You are a visual storyteller obsessed with framing, camera motion, transitions, and creative scene construction.''\<rparr>,
      \<lparr>persona_name = ''Storytelling Coach'',
       persona_description = ''You are a professional storytelling instructor specializing in short-form narrative design.''\<rparr>,
      \<lparr>persona_name = ''Brand Strategist'',
       persona_description = ''You are a senior brand strategist focused on positioning, message clarity, differentiation, and audience fit.''\<rparr>,
      \<lparr>persona_name = ''Trend Analyst / Cultural Strategist'',
       persona_description = ''You are a cultural trend forecaster specializing in TikTok microcultures, aesthetics, and emerging content patterns.''\<rparr>]"

definition judge_user_args :: "(string \<times> json) list \<Rightarrow> json \<Rightarrow> (string \<times> json) list" where
  "judge_user_args product_context script_json =
     [(''product_name'', dict_get product_context ''name'' (JStr '''')),
      (''target_audience'', dict_get product_context ''target_audience'' (JStr '''')),
      (''pain_point'', dict_get product_context ''pain_point'' (JStr '''')),
      (''key_benefit'', dict_get product_context ''key_benefit'' (JStr '''')),
      (''platform'', dict_get product_context ''platform'' (JStr ''tiktok'')),
      (''script_json_string'', script_json)]"

definition build_generic_user_prompt :: "(string \<times> json) list \<Rightarrow> json \<Rightarrow> prompt" where
  "build_generic_user_prompt product_context script_json =
     format_prompt ''GENERIC_USER_PROMPT_TEMPLATE'' (judge_user_args product_context script_json)"

definition build_persona_system_prompt :: "string \<Rightarrow> string \<Rightarrow> prompt" where
  "build_persona_system_prompt name descr =
     format_prompt ''PERSONA_SYSTEM_PROMPT_TEMPLATE''
       [(''PERSONA_NAME'', JStr name), (''PERSONA_DESCRIPTION'', JStr descr)]"

definition build_persona_user_prompt :: "(string \<times> json) list \<Rightarrow> json \<Rightarrow> prompt" where
  "build_persona_user_prompt product_context script_json =
     format_prompt ''PERSONA_USER_PROMPT_TEMPLATE'' (judge_user_args product_context script_json)"

subsection \<open>The evaluator\<close>

record CreativityEvaluator =
  temperature_grid :: "real list"
  persona_temperature :: real
  personas :: "persona_def list"

text \<open>
  \<^verbatim>\<open>CreativityEvaluator.__init__\<close>: an absent or empty grid is replaced by the
  default one (\<^verbatim>\<open>temperature_grid or [...]\<close>).
\<close>

definition CreativityEvaluator_init :: "real list option \<Rightarrow> real \<Rightarrow> CreativityEvaluator" where
  "CreativityEvaluator_init grid ptemp =
     \<lparr>temperature_grid =
        (case grid of
           None \<Rightarrow> [0.1, 0.2, 0.3, 0.4, 0.5, 0.6, 0.7, 0.8]
         | Some g \<Rightarrow> if g = [] then [0.1, 0.2, 0.3, 0.4, 0.5, 0.6, 0.7, 0.8] else g),
      persona_temperature = ptemp,
      personas = ALL_PERSONAS\<rparr>"

definition criterion_names :: "string list" where
  "criterion_names =
     [''hook_originality'', ''visual_creativity'', ''narrative_originality'',
      ''entertainment_value'', ''brand_integration'', ''platform_fit'']"

text \<open>\<^verbatim>\<open>getattr(eval, name)\<close> on a judge output.\<close>

definition judge_getattr :: "'a GenericJudgeOutput_scheme \<Rightarrow> string \<Rightarrow> error + CriterionScore" where
  "judge_getattr ev name =
     (if name = ''hook_originality'' then Inr (hook_originality ev)
      else if name = ''visual_creativity'' then Inr (visual_creativity ev)
      else if name = ''narrative_originality'' then Inr (narrative_originality ev)
      else if name = ''entertainment_value'' then Inr (entertainment_value ev)
      else if name = ''brand_integration'' then Inr (brand_integration ev)
      else if name = ''platform_fit'' then Inr (platform_fit ev)
      else if name = ''overall_creativity'' then Inr (overall_creativity ev)
      else Inl (AttributeError name))"

text \<open>\<^verbatim>\<open>[getattr(eval, criterion_name).score for eval in successful_evaluations]\<close>\<close>

fun criterion_scores :: "string \<Rightarrow> 'a GenericJudgeOutput_scheme list \<Rightarrow> error + real list" where
  "criterion_scores name [] = Inr []"
| "criterion_scores name (ev # evs) =
     bind_err (judge_getattr ev name) (\<lambda>c.
     bind_err (criterion_scores name evs) (\<lambda>rest.
     Inr (criterion_score c # rest)))"

text \<open>\<^verbatim>\<open>statistics.stdev(scores) if len(scores) > 1 else 0.0\<close>\<close>

definition stdev_or_zero :: "real list \<Rightarrow> error + real" where
  "stdev_or_zero scores = (if 1 < length scores then statistics_stdev scores else Inr 0)"

text \<open>The loop over \<^verbatim>\<open>criterion_names\<close> that fills \<^verbatim>\<open>criteria_stats\<close>.\<close>

fun criteria_loop ::
  "string list \<Rightarrow> 'a GenericJudgeOutput_scheme list \<Rightarrow> (string \<rightharpoonup> CriterionStats)
     \<Rightarrow> error + (string \<rightharpoonup> CriterionStats)" where
  "criteria_loop [] evals criteria_stats = Inr criteria_stats"
| "criteria_loop (criterion_name # names) evals criteria_stats =
     bind_err (criterion_scores criterion_name evals) (\<lambda>scores.
     bind_err (statistics_mean scores) (\<lambda>m.
     bind_err (stdev_or_zero scores) (\<lambda>sd.
     bind_err (mk_CriterionStats m sd) (\<lambda>cs.
     criteria_loop names evals (criteria_stats(criterion_name \<mapsto> cs))))))"

text \<open>
  The statistics of a sweep, from \<^verbatim>\<open># Compute statistics\<close> to the construction of
  the \<^verbatim>\<open>overall\<close> field. The two sweeps hold the same text for it; it is written
  once here.
\<close>

definition sweep_statistics ::
  "'a GenericJudgeOutput_scheme list \<Rightarrow> error + EvaluationStats \<times> (string \<rightharpoonup> CriterionStats)" where
  "sweep_statistics successful_evaluations =
     (let overall_scores =
            map (\<lambda>ev. criterion_score (overall_creativity ev)) successful_evaluations
      in bind_err (statistics_mean overall_scores) (\<lambda>overall_mean.
         bind_err (stdev_or_zero overall_scores) (\<lambda>overall_std.
         bind_err (criteria_loop criterion_names successful_evaluations Map.empty) (\<lambda>criteria_stats.
         bind_err (mk_EvaluationStats overall_mean overall_std) (\<lambda>ov.
         Inr (ov, criteria_stats))))))"

definition temperature_request :: "prompt \<Rightarrow> real \<Rightarrow> llm_request" where
  "temperature_request user temp =
     \<lparr>system_prompt = plain_prompt ''GENERIC_SYSTEM_PROMPT'',
      user_prompt = user,
      req_output_schema = ''GenericJudgeOutput'',
      req_temperature = temp,
      req_top_p = 0.9\<rparr>"

text \<open>
  The loop of \<^verbatim>\<open>_temperature_sweep\<close>: one provider call per temperature inside
  \<^verbatim>\<open>try\<close>; \<^verbatim>\<open>except Exception\<close> logs and continues with the next temperature.
\<close>

fun temperature_loop ::
  "'s LLMProvider \<Rightarrow> prompt \<Rightarrow> real list \<Rightarrow> temperature_entry list \<Rightarrow> GenericJudgeOutput list
     \<Rightarrow> 's \<Rightarrow> (temperature_entry list \<times> GenericJudgeOutput list) \<times> 's" where
  "temperature_loop provider user [] outputs successful_evaluations s =
     ((outputs, successful_evaluations), s)"
| "temperature_loop provider user (temp # temps) outputs successful_evaluations s =
     (case generate_GenericJudgeOutput provider (temperature_request user temp) s of
        (Inr output, s') \<Rightarrow>
          temperature_loop provider user temps
            (outputs @ [\<lparr>te_temperature = temp,
                          te_overall_creativity = criterion_score (overall_creativity output),
                          te_judge_output = output\<rparr>])
            (successful_evaluations @ [output]) s'
      | (Inl e, s') \<Rightarrow>
          temperature_loop provider user temps outputs successful_evaluations s')"

definition temperature_sweep ::
  "CreativityEvaluator \<Rightarrow> 's LLMProvider \<Rightarrow> json \<Rightarrow> (string \<times> json) list \<Rightarrow> 's
     \<Rightarrow> (error + TemperatureBlock option) \<times> 's" where
  "temperature_sweep self provider script_json product_context s =
     (let user = build_generic_user_prompt product_context script_json;
          ((outputs, successful_evaluations), s') =
             temperature_loop provider user (temperature_grid self) [] [] s
      in if length successful_evaluations < 4 then (Inr None, s')
         else
           (bind_err (sweep_statistics successful_evaluations) (\<lambda>(ov, criteria_stats).
              Inr (Some \<lparr>tb_overall = ov, tb_criteria = criteria_stats,
                         by_temperature = outputs\<rparr>)), s'))"

definition persona_request :: "CreativityEvaluator \<Rightarrow> (string \<times> json) list \<Rightarrow> json \<Rightarrow> persona_def \<Rightarrow> llm_request" where
  "persona_request self product_context script_json p =
     \<lparr>system_prompt = build_persona_system_prompt (persona_name p) (persona_description p),
      user_prompt = build_persona_user_prompt product_context script_json,
      req_output_schema = ''PersonaJudgeOutput'',
      req_temperature = persona_temperature self,
      req_top_p = 0.9\<rparr>"

fun persona_loop ::
  "CreativityEvaluator \<Rightarrow> 's LLMProvider \<Rightarrow> (string \<times> json) list \<Rightarrow> json \<Rightarrow> persona_def list
     \<Rightarrow> persona_entry list \<Rightarrow> PersonaJudgeOutput list
     \<Rightarrow> 's \<Rightarrow> (persona_entry list \<times> PersonaJudgeOutput list) \<times> 's" where
  "persona_loop self provider product_context script_json [] outputs successful_evaluations s =
     ((outputs, successful_evaluations), s)"
| "persona_loop self provider product_context script_json (p # ps) outputs successful_evaluations s =
     (case generate_PersonaJudgeOutput provider
             (persona_request self product_context script_json p) s of
        (Inr output, s') \<Rightarrow>
          persona_loop self provider product_context script_json ps
            (outputs @ [\<lparr>pe_persona = persona_name p,
                          pe_overall_creativity = criterion_score (overall_creativity output),
                          pe_judge_output = output\<rparr>])
            (successful_evaluations @ [output]) s'
      | (Inl e, s') \<Rightarrow>
          persona_loop self provider product_context script_json ps outputs successful_evaluations s')"

definition persona_sweep ::
  "CreativityEvaluator \<Rightarrow> 's LLMProvider \<Rightarrow> json \<Rightarrow> (string \<times> json) list \<Rightarrow> 's
     \<Rightarrow> (error + PersonaBlock option) \<times> 's" where
  "persona_sweep self provider script_json product_context s =
     (let ((outputs, successful_evaluations), s') =
             persona_loop self provider product_context script_json (personas self) [] [] s
      in if length successful_evaluations < 4 then (Inr None, s')
         else
           (bind_err (sweep_statistics successful_evaluations) (\<lambda>(ov, criteria_stats).
              Inr (Some \<lparr>pb_overall = ov, pb_criteria = criteria_stats,
                         by_persona = outputs\<rparr>)), s'))"

text \<open>
  The loop of \<^verbatim>\<open>_aggregate_results\<close> over \<^verbatim>\<open>criterion_names\<close> when both blocks
  are present; \<^verbatim>\<open>block.criteria[name]\<close> raises \<open>KeyError\<close> on a missing name.
\<close>

definition criteria_lookup :: "(string \<rightharpoonup> CriterionStats) \<Rightarrow> string \<Rightarrow> error + CriterionStats" where
  "criteria_lookup d name = (case d name of None \<Rightarrow> Inl (KeyError name) | Some v \<Rightarrow> Inr v)"

fun aggregate_loop ::
  "string list \<Rightarrow> TemperatureBlock \<Rightarrow> PersonaBlock \<Rightarrow> (string \<rightharpoonup> CriterionStats)
     \<Rightarrow> error + (string \<rightharpoonup> CriterionStats)" where
  "aggregate_loop [] tb pb criteria_stats = Inr criteria_stats"
| "aggregate_loop (criterion_name # names) tb pb criteria_stats =
     bind_err (criteria_lookup (tb_criteria tb) criterion_name) (\<lambda>t.
     bind_err (criteria_lookup (pb_criteria pb) criterion_name) (\<lambda>p.
     bind_err (mk_CriterionStats ((criterion_mean t + criterion_mean p) / 2)
                 (max (criterion_std t) (criterion_std p))) (\<lambda>cs.
     aggregate_loop names tb pb (criteria_stats(criterion_name \<mapsto> cs)))))"

text \<open>
  The comprehension \<^verbatim>\<open>{name: CriterionStats(mean=0.0, std=0.0) for name in criterion_names}\<close>.
\<close>

fun zero_criteria :: "string list \<Rightarrow> (string \<rightharpoonup> CriterionStats) \<Rightarrow> error + (string \<rightharpoonup> CriterionStats)" where
  "zero_criteria [] criteria_stats = Inr criteria_stats"
| "zero_criteria (name # names) criteria_stats =
     bind_err (mk_CriterionStats 0 0) (\<lambda>cs. zero_criteria names (criteria_stats(name \<mapsto> cs)))"

text \<open>A model instance is always true in a condition, so a block is false only when it is \<^verbatim>\<open>None\<close>.\<close>

definition aggregate_results ::
  "TemperatureBlock option \<Rightarrow> PersonaBlock option \<Rightarrow> error + AggregateResults" where
  "aggregate_results temperature_block persona_block =
     bind_err
       (case (temperature_block, persona_block) of
          (Some tb, Some pb) \<Rightarrow>
            bind_err (aggregate_loop criterion_names tb pb Map.empty) (\<lambda>criteria_stats.
            Inr ((mean (tb_overall tb) + mean (pb_overall pb)) / 2,
                 max (std (tb_overall tb)) (std (pb_overall pb)),
                 criteria_stats))
        | (Some tb, None) \<Rightarrow>
            Inr (mean (tb_overall tb), std (tb_overall tb), tb_criteria tb)
        | (None, Some pb) \<Rightarrow>
            Inr (mean (pb_overall pb), std (pb_overall pb), pb_criteria pb)
        | (None, None) \<Rightarrow>
            bind_err (zero_criteria criterion_names Map.empty) (\<lambda>criteria_stats.
            Inr (0, 0, criteria_stats)))
       (\<lambda>(overall_mean, overall_std, criteria_stats).
          bind_err (mk_EvaluationStats overall_mean overall_std) (\<lambda>ov.
          Inr \<lparr>overall = ov, criteria = criteria_stats\<rparr>))"

definition score_script ::
  "CreativityEvaluator \<Rightarrow> 's LLMProvider \<Rightarrow> content \<Rightarrow> (string \<times> json) list \<Rightarrow> 's
     \<Rightarrow> (error + CreativityAssessmentResult) \<times> 's" where
  "score_script self provider script product_context s =
     (let script_json = model_dump script in
      case temperature_sweep self provider script_json product_context s of
        (Inl e, s1) \<Rightarrow> (Inl e, s1)
      | (Inr temperature_block, s1) \<Rightarrow>
          (case persona_sweep self provider script_json product_context s1 of
             (Inl e, s2) \<Rightarrow> (Inl e, s2)
           | (Inr persona_block, s2) \<Rightarrow>
               (bind_err (aggregate_results temperature_block persona_block) (\<lambda>agg.
                  Inr \<lparr>car_temperature_block = temperature_block,
                       car_persona_block = persona_block,
                       car_aggregate = agg,
                       car_raw_judge_outputs = None\<rparr>), s2)))"

section \<open>The statistics and the runs of a sweep, as the specification words them\<close>

text \<open>
  These definitions follow the specification, not the code: the arithmetic mean, the
  sample standard deviation (zero for fewer than two values), the outcomes of a batch
  of provider calls made one after the other, and the successful ones among them.
\<close>

definition arithmetic_mean :: "real list \<Rightarrow> real" where
  "arithmetic_mean xs = sum_list xs / real (length xs)"

definition sample_std :: "real list \<Rightarrow> real" where
  "sample_std xs =
     (if length xs < 2 then 0
      else sqrt (sum_list (map (\<lambda>x. (x - arithmetic_mean xs)\<^sup>2) xs) / real (length xs - 1)))"

fun run_calls :: "('r \<Rightarrow> 's \<Rightarrow> (error + 'a) \<times> 's) \<Rightarrow> 'r list \<Rightarrow> 's \<Rightarrow> (error + 'a) list \<times> 's" where
  "run_calls call [] s = ([], s)"
| "run_calls call (r # rs) s =
     (case call r s of (x, s') \<Rightarrow>
        (case run_calls call rs s' of (xs, s'') \<Rightarrow> (x # xs, s'')))"

fun successes :: "(error + 'a) list \<Rightarrow> 'a list" where
  "successes [] = []"
| "successes (Inr x # rs) = x # successes rs"
| "successes (Inl e # rs) = successes rs"

definition overall_scores :: "'a GenericJudgeOutput_scheme list \<Rightarrow> real list" where
  "overall_scores evals = map (\<lambda>ev. criterion_score (overall_creativity ev)) evals"

text \<open>The six criteria, each with the field of a judge output that it names.\<close>

definition criterion_fields ::
  "(string \<times> ('a GenericJudgeOutput_scheme \<Rightarrow> CriterionScore)) list" where
  "criterion_fields =
     [(''hook_originality'', hook_originality),
      (''visual_creativity'', visual_creativity),
      (''narrative_originality'', narrative_originality),
      (''entertainment_value'', entertainment_value),
      (''brand_integration'', brand_integration),
      (''platform_fit'', platform_fit)]"

definition spec_criteria :: "'a GenericJudgeOutput_scheme list \<Rightarrow> (string \<rightharpoonup> CriterionStats)" where
  "spec_criteria evals =
     map_of (map (\<lambda>(name, field).
                   (name, \<lparr>criterion_mean = arithmetic_mean (map (\<lambda>ev. criterion_score (field ev)) evals),
                           criterion_std = sample_std (map (\<lambda>ev. criterion_score (field ev)) evals)\<rparr>))
                 criterion_fields)"

text \<open>The aggregate of two optional blocks, as the specification words it.\<close>

definition aggregate_as_specified ::
  "TemperatureBlock option \<Rightarrow> PersonaBlock option \<Rightarrow> AggregateResults \<Rightarrow> bool" where
  "aggregate_as_specified tb pb agg =
     (case (tb, pb) of
        (Some t, Some p) \<Rightarrow>
          mean (overall agg) = (mean (tb_overall t) + mean (pb_overall p)) / 2
          \<and> std (overall agg) = max (std (tb_overall t)) (std (pb_overall p))
          \<and> (\<forall>name\<in>set criterion_names. \<exists>ct cp.
                tb_criteria t name = Some ct \<and> pb_criteria p name = Some cp
                \<and> criteria agg name =
                    Some \<lparr>criterion_mean = (criterion_mean ct + criterion_mean cp) / 2,
                          criterion_std = max (criterion_std ct) (criterion_std cp)\<rparr>)
      | (Some t, None) \<Rightarrow> overall agg = tb_overall t \<and> criteria agg = tb_criteria t
      | (None, Some p) \<Rightarrow> overall agg = pb_overall p \<and> criteria agg = pb_criteria p
      | (None, None) \<Rightarrow>
          overall agg = \<lparr>mean = 0, std = 0\<rparr>
          \<and> (\<forall>name\<in>set criterion_names.
                criteria agg name = Some \<lparr>criterion_mean = 0, criterion_std = 0\<rparr>))"


section \<open>generation/registry.py\<close>

record ContentDefinition =
  ideation_system_prompt :: string
  ideation_user_prompt_template :: string
  judge_system_prompt :: string
  judge_user_prompt_template :: string
  writing_system_prompt :: string
  writing_user_prompt_template :: string
  output_schema :: string

text \<open>
  The registry is a module-level dictionary that is read at every lookup; the
  functions below take it as an argument. \<open>CONTENT_REGISTRY\<close> is the dictionary as the
  module defines it: the video script is its only entry.
\<close>

type_synonym registry = "ContentType \<rightharpoonup> ContentDefinition"

definition CONTENT_REGISTRY :: registry where
  "CONTENT_REGISTRY =
     [VIDEO_SCRIPT \<mapsto>
        \<lparr>ideation_system_prompt = ''VIDEO_IDEATION_SYSTEM'',
         ideation_user_prompt_template = ''VIDEO_IDEATION_USER_TEMPLATE'',
         judge_system_prompt = ''VIDEO_JUDGE_SYSTEM'',
         judge_user_prompt_template = ''VIDEO_JUDGE_USER_TEMPLATE'',
         writing_system_prompt = ''VIDEO_WRITING_SYSTEM'',
         writing_user_prompt_template = ''VIDEO_WRITING_USER_TEMPLATE'',
         output_schema = ''VideoScript''\<rparr>]"

definition get_content_definition :: "registry \<Rightarrow> ContentType \<Rightarrow> error + ContentDefinition" where
  "get_content_definition reg content_type =
     (case reg content_type of
        None \<Rightarrow> Inl (ValueError ''Content type is not registered.'')
      | Some d \<Rightarrow> Inr d)"

text \<open>\<^verbatim>\<open>ContentType.value\<close>\<close>

fun content_type_value :: "ContentType \<Rightarrow> string" where
  "content_type_value VIDEO_SCRIPT = ''video_script''"
| "content_type_value LINKEDIN_POST = ''linkedin_post''"
| "content_type_value TWITTER_THREAD = ''twitter_thread''"
| "content_type_value EMAIL_COPY = ''email_copy''"
| "content_type_value REDDIT_POST = ''reddit_post''"
| "content_type_value AD_COPY = ''ad_copy''"

section \<open>generation/generator.py: the pipeline\<close>

text \<open>
  Fields of \<^verbatim>\<open>GenerationResult\<close> carry the prefix \<open>gr_\<close>. The generation
  identifier that \<^verbatim>\<open>__post_init__\<close> builds from the clock and \<^verbatim>\<open>uuid4\<close> is an
  argument of \<open>generate\<close>.
\<close>

record GenerationResult =
  gr_content :: content
  gr_selected_concept :: Concept
  gr_concept_score :: real
  gr_content_type :: ContentType
  gr_concepts :: "Concept list"
  gr_scored_concepts :: "ScoredConcept list"
  gr_product_context :: "(string \<times> json) list"
  gr_reference_examples :: "string list option"
  gr_generation_uuid :: string

text \<open>
  The request of \<^verbatim>\<open>_ideate\<close>. The text appended for the reference examples (a
  heading and one numbered line per example) is represented by the examples in order;
  nothing is appended for \<^verbatim>\<open>None\<close> or an empty list.
\<close>

definition ideation_request ::
  "ContentDefinition \<Rightarrow> EngineParameters \<Rightarrow> (string \<times> json) list \<Rightarrow> string list option \<Rightarrow> llm_request" where
  "ideation_request defn params product_context reference_examples =
     \<lparr>system_prompt =
        format_prompt (ideation_system_prompt defn) [(''num_branches'', JInt (num_branches params))],
      user_prompt =
        \<lparr>template = ideation_user_prompt_template defn,
         format_args =
           [(''num_branches'', JInt (num_branches params)),
            (''product_name'', dict_get product_context ''name'' (JStr '''')),
            (''target_audience'', dict_get product_context ''target_audience'' (JStr '''')),
            (''pain_point'', dict_get product_context ''pain_point'' (JStr '''')),
            (''key_benefit'', dict_get product_context ''key_benefit'' (JStr '''')),
            (''offer'', dict_get product_context ''offer'' (JStr ''''))],
         appended = (case reference_examples of None \<Rightarrow> [] | Some examples \<Rightarrow> examples)\<rparr>,
      req_output_schema = ''IdeationOutput'',
      req_temperature = temperature params,
      req_top_p = top_p params\<rparr>"

definition ideate ::
  "registry \<Rightarrow> CreativityConfig \<Rightarrow> 's LLMProvider \<Rightarrow> (string \<times> json) list \<Rightarrow> ContentType
     \<Rightarrow> string list option \<Rightarrow> 's \<Rightarrow> (error + Concept list) \<times> 's" where
  "ideate reg config provider product_context content_type reference_examples s =
     (case get_params config of
        Inl e \<Rightarrow> (Inl e, s)
      | Inr params \<Rightarrow>
          (case get_content_definition reg content_type of
             Inl e \<Rightarrow> (Inl e, s)
           | Inr defn \<Rightarrow>
               (case generate_IdeationOutput provider
                       (ideation_request defn params product_context reference_examples) s of
                  (Inl e, s') \<Rightarrow> (Inl e, s')
                | (Inr ideation_output, s') \<Rightarrow> (Inr (io_concepts ideation_output), s'))))"

definition judge_request :: "ContentDefinition \<Rightarrow> (string \<times> json) list \<Rightarrow> Concept \<Rightarrow> llm_request" where
  "judge_request defn product_context c =
     \<lparr>system_prompt = plain_prompt (judge_system_prompt defn),
      user_prompt =
        format_prompt (judge_user_prompt_template defn)
          [(''product_name'', dict_get product_context ''name'' (JStr '''')),
           (''target_audience'', dict_get product_context ''target_audience'' (JStr '''')),
           (''pain_point'', dict_get product_context ''pain_point'' (JStr '''')),
           (''key_benefit'', dict_get product_context ''key_benefit'' (JStr '''')),
           (''concept_title'', JStr (title c)),
           (''concept_description'', JStr (description c)),
           (''concept_hook'', JStr (hook_idea c))],
      req_output_schema = ''ConceptScore'',
      req_temperature = 0.3,
      req_top_p = 0.9\<rparr>"

definition judge_concept ::
  "registry \<Rightarrow> 's LLMProvider \<Rightarrow> Concept \<Rightarrow> (string \<times> json) list \<Rightarrow> ContentType
     \<Rightarrow> 's \<Rightarrow> (error + ConceptScore) \<times> 's" where
  "judge_concept reg provider c product_context content_type s =
     (case get_content_definition reg content_type of
        Inl e \<Rightarrow> (Inl e, s)
      | Inr defn \<Rightarrow> generate_ConceptScore provider (judge_request defn product_context c) s)"

text \<open>
  The loop of \<^verbatim>\<open>_judge_all_concepts\<close>: the calls are made one after the other and
  no call is guarded, so the first failure ends the loop.
\<close>

fun judge_all_loop ::
  "registry \<Rightarrow> 's LLMProvider \<Rightarrow> (string \<times> json) list \<Rightarrow> ContentType \<Rightarrow> Concept list
     \<Rightarrow> ScoredConcept list \<Rightarrow> 's \<Rightarrow> (error + ScoredConcept list) \<times> 's" where
  "judge_all_loop reg provider product_context content_type [] scored s = (Inr scored, s)"
| "judge_all_loop reg provider product_context content_type (c # cs) scored s =
     (case judge_concept reg provider c product_context content_type s of
        (Inl e, s') \<Rightarrow> (Inl e, s')
      | (Inr sc, s') \<Rightarrow>
          judge_all_loop reg provider product_context content_type cs
            (scored @ [\<lparr>concept = c, score = sc\<rparr>]) s')"

definition judge_all_concepts ::
  "registry \<Rightarrow> 's LLMProvider \<Rightarrow> Concept list \<Rightarrow> (string \<times> json) list \<Rightarrow> ContentType
     \<Rightarrow> 's \<Rightarrow> (error + ScoredConcept list) \<times> 's" where
  "judge_all_concepts reg provider cs product_context content_type s =
     judge_all_loop reg provider product_context content_type cs [] s"

definition draft_request ::
  "ContentDefinition \<Rightarrow> EngineParameters \<Rightarrow> ScoredConcept \<Rightarrow> (string \<times> json) list \<Rightarrow> llm_request" where
  "draft_request defn params selected product_context =
     \<lparr>system_prompt = plain_prompt (writing_system_prompt defn),
      user_prompt =
        format_prompt (writing_user_prompt_template defn)
          [(''product_name'', dict_get product_context ''name'' (JStr '''')),
           (''target_audience'', dict_get product_context ''target_audience'' (JStr '''')),
           (''pain_point'', dict_get product_context ''pain_point'' (JStr '''')),
           (''key_benefit'', dict_get product_context ''key_benefit'' (JStr '''')),
           (''offer'', dict_get product_context ''offer'' (JStr '''')),
           (''concept_title'', JStr (title (concept selected))),
           (''concept_description'', JStr (description (concept selected))),
           (''concept_hook'', JStr (hook_idea (concept selected))),
           (''platform'', dict_get product_context ''platform'' (JStr ''tiktok''))],
      req_output_schema = output_schema defn,
      req_temperature = temperature params,
      req_top_p = top_p params\<rparr>"

definition draft_content ::
  "registry \<Rightarrow> CreativityConfig \<Rightarrow> 's LLMProvider \<Rightarrow> ScoredConcept \<Rightarrow> (string \<times> json) list
     \<Rightarrow> ContentType \<Rightarrow> 's \<Rightarrow> (error + content) \<times> 's" where
  "draft_content reg config provider selected product_context content_type s =
     (case get_params config of
        Inl e \<Rightarrow> (Inl e, s)
      | Inr params \<Rightarrow>
          (case get_content_definition reg content_type of
             Inl e \<Rightarrow> (Inl e, s)
           | Inr defn \<Rightarrow>
               generate_content provider (draft_request defn params selected product_context) s))"

definition generate ::
  "registry \<Rightarrow> CreativityConfig \<Rightarrow> 's LLMProvider \<Rightarrow> string \<Rightarrow> (string \<times> json) list \<Rightarrow> ContentType
     \<Rightarrow> string list option \<Rightarrow> 's \<Rightarrow> (error + GenerationResult) \<times> 's" where
  "generate reg config provider fresh_uuid product_context content_type reference_examples s =
     (case ideate reg config provider product_context content_type reference_examples s of
        (Inl e, s1) \<Rightarrow> (Inl e, s1)
      | (Inr cs, s1) \<Rightarrow>
          if cs = [] then
            (Inl (ValueError ''Ideation phase returned no concepts. Please try again or adjust creativity parameters.''), s1)
          else
            (case judge_all_concepts reg provider cs product_context content_type s1 of
               (Inl e, s2) \<Rightarrow> (Inl e, s2)
             | (Inr scored, s2) \<Rightarrow>
                 (case select_best_concept config scored of
                    Inl e \<Rightarrow> (Inl e, s2)
                  | Inr best \<Rightarrow>
                      (case draft_content reg config provider best product_context content_type s2 of
                         (Inl e, s3) \<Rightarrow> (Inl e, s3)
                       | (Inr c, s3) \<Rightarrow>
                           (Inr \<lparr>gr_content = c,
                                 gr_selected_concept = concept best,
                                 gr_concept_score = sc_quality_score best,
                                 gr_content_type = content_type,
                                 gr_concepts = cs,
                                 gr_scored_concepts = scored,
                                 gr_product_context = product_context,
                                 gr_reference_examples = reference_examples,
                                 gr_generation_uuid = fresh_uuid\<rparr>, s3)))))"

section \<open>engine.py\<close>

record EngineResult =
  generation :: GenerationResult
  evaluation :: "CreativityAssessmentResult option"
  uuid :: string

text \<open>
  \<^verbatim>\<open>CreativeEngine.generate\<close>, with the method \<^verbatim>\<open>self.evaluator.score_script\<close> as
  the argument \<open>evaluator_score_script\<close>. \<^verbatim>\<open>except Exception\<close> around the evaluation
  logs the error and leaves \<^verbatim>\<open>assessment\<close> as \<^verbatim>\<open>None\<close>.
\<close>

definition engine_generate_with ::
  "(content \<Rightarrow> (string \<times> json) list \<Rightarrow> 's \<Rightarrow> (error + CreativityAssessmentResult) \<times> 's)
     \<Rightarrow> registry \<Rightarrow> CreativityConfig \<Rightarrow> 's LLMProvider \<Rightarrow> string \<Rightarrow> (string \<times> json) list
     \<Rightarrow> ContentType \<Rightarrow> string list option \<Rightarrow> bool \<Rightarrow> 's \<Rightarrow> (error + EngineResult) \<times> 's" where
  "engine_generate_with evaluator_score_script reg config provider fresh_uuid product_context
       content_type reference_examples evaluate_creativity s =
     (case generate reg config provider fresh_uuid product_context content_type reference_examples s of
        (Inl e, s1) \<Rightarrow> (Inl e, s1)
      | (Inr gen_result, s1) \<Rightarrow>
          (let (assessment, s2) =
                 (if evaluate_creativity then
                    (if content_type = VIDEO_SCRIPT then
                       (case evaluator_score_script (gr_content gen_result) product_context s1 of
                          (Inr a, s2) \<Rightarrow> (Some a, s2)
                        | (Inl e, s2) \<Rightarrow> (None, s2))
                     else (None, s1))
                  else (None, s1))
           in (Inr \<lparr>generation = gen_result, evaluation = assessment,
                     uuid = gr_generation_uuid gen_result\<rparr>, s2)))"

text \<open>
  The engine as \<^verbatim>\<open>CreativeEngine.__init__\<close> builds it: the evaluator is
  \<^verbatim>\<open>CreativityEvaluator(provider=self.provider)\<close>, with the default grid and the
  default persona temperature.
\<close>

definition engine_generate ::
  "registry \<Rightarrow> CreativityConfig \<Rightarrow> 's LLMProvider \<Rightarrow> string \<Rightarrow> (string \<times> json) list
     \<Rightarrow> ContentType \<Rightarrow> string list option \<Rightarrow> bool \<Rightarrow> 's \<Rightarrow> (error + EngineResult) \<times> 's" where
  "engine_generate reg config provider =
     engine_generate_with (score_script (CreativityEvaluator_init None 0.3) provider) reg config provider"

section \<open>\<^verbatim>\<open>GenerationResult.to_dict\<close> and validation against the schema\<close>

text \<open>
  \<^verbatim>\<open>min\<close>, \<^verbatim>\<open>max\<close> and the average of the scores, each guarded in the source by
  \<^verbatim>\<open>if self.scored_concepts else 0.0\<close>.
\<close>

definition score_min :: "real list \<Rightarrow> real" where
  "score_min xs = (case xs of [] \<Rightarrow> 0 | x # rest \<Rightarrow> fold min rest x)"

definition score_max :: "real list \<Rightarrow> real" where
  "score_max xs = (case xs of [] \<Rightarrow> 0 | x # rest \<Rightarrow> fold max rest x)"

definition score_avg :: "real list \<Rightarrow> real" where
  "score_avg xs = (if xs = [] then 0 else sum_list xs / real (length xs))"

definition dump_concept :: "Concept \<Rightarrow> json" where
  "dump_concept c =
     JDict [(''title'', JStr (title c)),
            (''description'', JStr (description c)),
            (''hook_idea'', JStr (hook_idea c))]"

text \<open>
  The clock readings \<^verbatim>\<open>time.time()\<close> and \<^verbatim>\<open>time.strftime(...)\<close> are the
  arguments \<open>now\<close> and \<open>iso_now\<close>.
\<close>

definition to_dict :: "real \<Rightarrow> string \<Rightarrow> GenerationResult \<Rightarrow> (string \<times> json) list" where
  "to_dict now iso_now self =
     [(''timestamp'', JFloat now),
      (''iso_timestamp'', JStr iso_now),
      (''generation_uuid'', JStr (gr_generation_uuid self)),
      (''content_type'', JStr (content_type_value (gr_content_type self))),
      (''product_context'', JDict (gr_product_context self)),
      (''reference_examples'',
         (case gr_reference_examples self of None \<Rightarrow> JNull | Some xs \<Rightarrow> JList (map JStr xs))),
      (''selected_concept'', dump_concept (gr_selected_concept self)),
      (''concept_score'', JFloat (gr_concept_score self)),
      (''generated_content'', model_dump (gr_content self)),
      (''all_concepts'',
         JList (map (\<lambda>sc. JDict [(''concept'', dump_concept (concept sc)),
                                   (''score'', JFloat (quality_score (score sc))),
                                   (''reason'', JStr (reason (score sc)))])
                    (gr_scored_concepts self))),
      (''total_concepts_generated'', JInt (int (length (gr_concepts self)))),
      (''total_concepts_scored'', JInt (int (length (gr_scored_concepts self)))),
      (''score_distribution'',
         JDict [(''min'', JFloat (score_min (map sc_quality_score (gr_scored_concepts self)))),
                (''max'', JFloat (score_max (map sc_quality_score (gr_scored_concepts self)))),
                (''avg'', JFloat (score_avg (map sc_quality_score (gr_scored_concepts self))))])]"

subsection \<open>Validation\<close>

text \<open>
  Pydantic derives the validation of \<^verbatim>\<open>VideoScript(**d)\<close> from the class
  declarations: every declared field is read from the mapping (a field declared with
  \<^verbatim>\<open>Field(...)\<close> is required, one declared with \<^verbatim>\<open>Field(None, ...)\<close> defaults to
  \<^verbatim>\<open>None\<close>), checked against its type and its constraints (\<^verbatim>\<open>ge=0.0\<close>, the
  values of a \<^verbatim>\<open>Literal\<close>), nested models being validated in turn; keys that are
  not fields are ignored. The validators below accept a value of the declared type, and
  an integer or a float without fraction where the other numeric type is declared;
  the further conversions of Pydantic's lax mode (numeric strings, booleans) are not
  modelled, and such inputs are rejected here.
\<close>

definition field_required :: "(string \<times> json) list \<Rightarrow> string \<Rightarrow> error + json" where
  "field_required d k =
     (case map_of d k of None \<Rightarrow> Inl (ValidationError (k @ '': Field required'')) | Some v \<Rightarrow> Inr v)"

definition field_optional :: "(string \<times> json) list \<Rightarrow> string \<Rightarrow> json" where
  "field_optional d k = (case map_of d k of None \<Rightarrow> JNull | Some v \<Rightarrow> v)"

fun validate_int :: "json \<Rightarrow> error + int" where
  "validate_int (JInt i) = Inr i"
| "validate_int (JFloat x) =
     (if x = of_int \<lfloor>x\<rfloor> then Inr \<lfloor>x\<rfloor>
      else Inl (ValidationError ''Input should be a valid integer, got a number with a fractional part''))"
| "validate_int _ = Inl (ValidationError ''Input should be a valid integer'')"

fun validate_float :: "json \<Rightarrow> error + real" where
  "validate_float (JFloat x) = Inr x"
| "validate_float (JInt i) = Inr (of_int i)"
| "validate_float _ = Inl (ValidationError ''Input should be a valid number'')"

fun validate_str :: "json \<Rightarrow> error + string" where
  "validate_str (JStr s) = Inr s"
| "validate_str _ = Inl (ValidationError ''Input should be a valid string'')"

fun validate_opt_str :: "json \<Rightarrow> error + string option" where
  "validate_opt_str JNull = Inr None"
| "validate_opt_str (JStr s) = Inr (Some s)"
| "validate_opt_str _ = Inl (ValidationError ''Input should be a valid string'')"

definition validate_literal :: "string list \<Rightarrow> json \<Rightarrow> error + string" where
  "validate_literal allowed j =
     bind_err (validate_str j) (\<lambda>s.
       if s \<in> set allowed then Inr s
       else Inl (ValidationError ''Input should be one of the literal values''))"

definition validate_ge0 :: "json \<Rightarrow> error + real" where
  "validate_ge0 j =
     bind_err (validate_float j) (\<lambda>x.
       if 0 \<le> x then Inr x
       else Inl (ValidationError ''Input should be greater than or equal to 0''))"

fun validate_list :: "(json \<Rightarrow> error + 'a) \<Rightarrow> json list \<Rightarrow> error + 'a list" where
  "validate_list v [] = Inr []"
| "validate_list v (j # js) =
     bind_err (v j) (\<lambda>x. bind_err (validate_list v js) (\<lambda>xs. Inr (x # xs)))"

fun VideoMeta_validate :: "json \<Rightarrow> error + VideoMeta" where
  "VideoMeta_validate (JDict d) =
     bind_err (bind_err (field_required d ''duration_seconds'') validate_int) (\<lambda>dur.
     bind_err (bind_err (field_required d ''platform'') (validate_literal platform_literals)) (\<lambda>pl.
     Inr \<lparr>duration_seconds = dur, platform = pl\<rparr>))"
| "VideoMeta_validate _ = Inl (ValidationError ''Input should be a valid dictionary or instance of VideoMeta'')"

fun Audio_validate :: "json \<Rightarrow> error + Audio" where
  "Audio_validate (JDict d) =
     bind_err (validate_opt_str (field_optional d ''music'')) (\<lambda>m.
     bind_err (validate_opt_str (field_optional d ''sfx'')) (\<lambda>x.
     Inr \<lparr>music = m, sfx = x\<rparr>))"
| "Audio_validate _ = Inl (ValidationError ''Input should be a valid dictionary or instance of Audio'')"

fun Scene_validate :: "json \<Rightarrow> error + Scene" where
  "Scene_validate (JDict d) =
     bind_err (bind_err (field_required d ''id'') validate_int) (\<lambda>i.
     bind_err (bind_err (field_required d ''start_sec'') validate_ge0) (\<lambda>st.
     bind_err (bind_err (field_required d ''end_sec'') validate_ge0) (\<lambda>en.
     bind_err (bind_err (field_required d ''role'') (validate_literal role_literals)) (\<lambda>ro.
     bind_err (bind_err (field_required d ''visual'') validate_str) (\<lambda>vi.
     bind_err (bind_err (field_required d ''camera'') validate_str) (\<lambda>ca.
     bind_err (bind_err (field_required d ''action'') validate_str) (\<lambda>ac.
     bind_err (bind_err (field_required d ''dialogue'') validate_str) (\<lambda>di.
     bind_err (validate_opt_str (field_optional d ''on_screen_text'')) (\<lambda>ost.
     bind_err (bind_err (field_required d ''audio'') Audio_validate) (\<lambda>au.
     bind_err (validate_opt_str (field_optional d ''notes_for_model'')) (\<lambda>notes.
     Inr \<lparr>scene_id = i, start_sec = st, end_sec = en, role = ro, visual = vi, camera = ca,
          action = ac, dialogue = di, on_screen_text = ost, audio = au,
          notes_for_model = notes\<rparr>)))))))))))"
| "Scene_validate _ = Inl (ValidationError ''Input should be a valid dictionary or instance of Scene'')"

fun validate_scenes :: "json \<Rightarrow> error + Scene list" where
  "validate_scenes (JList js) = validate_list Scene_validate js"
| "validate_scenes _ = Inl (ValidationError ''Input should be a valid list'')"

fun VideoScript_validate :: "json \<Rightarrow> error + VideoScript" where
  "VideoScript_validate (JDict d) =
     bind_err (bind_err (field_required d ''video_meta'') VideoMeta_validate) (\<lambda>vm.
     bind_err (bind_err (field_required d ''scenes'') validate_scenes) (\<lambda>scs.
     Inr \<lparr>video_meta = vm, scenes = scs\<rparr>))"
| "VideoScript_validate _ = Inl (ValidationError ''Input should be a valid dictionary or instance of VideoScript'')"

text \<open>
  What validation guarantees of a \<^verbatim>\<open>VideoScript\<close> built by its constructor, as
  every script returned by a provider is.
\<close>

definition Scene_valid :: "Scene \<Rightarrow> bool" where
  "Scene_valid sc \<longleftrightarrow> 0 \<le> start_sec sc \<and> 0 \<le> end_sec sc \<and> role sc \<in> set role_literals"

definition VideoScript_valid :: "VideoScript \<Rightarrow> bool" where
  "VideoScript_valid v \<longleftrightarrow>
     platform (video_meta v) \<in> set platform_literals \<and> list_all Scene_valid (scenes v)"

section \<open>Stub providers and sample values\<close>

text \<open>Concrete inputs at which the theorems below are instantiated.\<close>

definition stub_judge :: "real \<Rightarrow> GenericJudgeOutput" where
  "stub_judge x =
     \<lparr>hook_originality = \<lparr>criterion_score = x, criterion_reason = ''hook''\<rparr>,
      visual_creativity = \<lparr>criterion_score = 2, criterion_reason = ''visual''\<rparr>,
      narrative_originality = \<lparr>criterion_score = 2, criterion_reason = ''narrative''\<rparr>,
      entertainment_value = \<lparr>criterion_score = 2, criterion_reason = ''fun''\<rparr>,
      brand_integration = \<lparr>criterion_score = 2, criterion_reason = ''brand''\<rparr>,
      platform_fit = \<lparr>criterion_score = 2, criterion_reason = ''platform''\<rparr>,
      overall_creativity = \<lparr>criterion_score = x, criterion_reason = ''overall''\<rparr>\<rparr>"

definition stub_persona_judge :: "real \<Rightarrow> PersonaJudgeOutput" where
  "stub_persona_judge x = GenericJudgeOutput.extend (stub_judge x) (PersonaJudgeOutput.fields ''p'')"

definition judge_stub :: "nat LLMProvider" where
  "judge_stub =
     \<lparr>generate_IdeationOutput = (\<lambda>req n. (Inl (ProviderError ''unavailable''), Suc n)),
      generate_ConceptScore = (\<lambda>req n. (Inl (ProviderError ''unavailable''), Suc n)),
      generate_content = (\<lambda>req n. (Inl (ProviderError ''unavailable''), Suc n)),
      generate_GenericJudgeOutput =
        (\<lambda>req n. (if req_temperature req < 0.45
                    then Inr (stub_judge (if even n then 1 else 3))
                    else Inl (ProviderError ''timeout''), Suc n)),
      generate_PersonaJudgeOutput =
        (\<lambda>req n. (if n < 3 then Inr (stub_persona_judge 2)
                    else Inl (ProviderError ''timeout''), Suc n))\<rparr>"


definition stub_temperature_block :: TemperatureBlock where
  "stub_temperature_block =
     \<lparr>tb_overall = \<lparr>mean = 2.0, std = 0.1\<rparr>,
      tb_criteria = (\<lambda>name. if name \<in> set criterion_names
                              then Some \<lparr>criterion_mean = 2.0, criterion_std = 0.1\<rparr> else None),
      by_temperature = []\<rparr>"

definition stub_persona_block :: PersonaBlock where
  "stub_persona_block =
     \<lparr>pb_overall = \<lparr>mean = 2.4, std = 0.3\<rparr>,
      pb_criteria = (\<lambda>name. if name \<in> set criterion_names
                              then Some \<lparr>criterion_mean = 2.4, criterion_std = 0.3\<rparr> else None),
      by_persona = []\<rparr>"


definition stub_concept :: "string \<Rightarrow> Concept" where
  "stub_concept t = \<lparr>title = t, description = ''a concept'', hook_idea = ''a hook''\<rparr>"

definition stub_script :: VideoScript where
  "stub_script =
     \<lparr>video_meta = \<lparr>duration_seconds = 12, platform = ''tiktok''\<rparr>,
      scenes =
        [\<lparr>scene_id = 1, start_sec = 0, end_sec = 3.5, role = ''hook'', visual = ''close-up'',
          camera = ''Zoom in'', action = ''opens laptop'', dialogue = '''',
          on_screen_text = Some ''Slow CI?'', audio = \<lparr>music = Some ''upbeat'', sfx = None\<rparr>,
          notes_for_model = None\<rparr>,
         \<lparr>scene_id = 2, start_sec = 3.5, end_sec = 12, role = ''cta'', visual = ''logo'',
          camera = ''Static shot'', action = ''logo appears'', dialogue = ''Try Acme'',
          on_screen_text = None, audio = \<lparr>music = None, sfx = Some ''whoosh''\<rparr>,
          notes_for_model = Some ''keep it short''\<rparr>]\<rparr>"

definition empty_ideation_stub :: "nat LLMProvider" where
  "empty_ideation_stub =
     judge_stub\<lparr>generate_IdeationOutput := (\<lambda>req n. (Inr \<lparr>io_concepts = []\<rparr>, Suc n))\<rparr>"

definition pipeline_stub :: "nat LLMProvider" where
  "pipeline_stub =
     \<lparr>generate_IdeationOutput =
        (\<lambda>req n. (Inr \<lparr>io_concepts = [stub_concept ''first'', stub_concept ''second'']\<rparr>, Suc n)),
      generate_ConceptScore =
        (\<lambda>req n. (Inr \<lparr>quality_score = (if n = 1 then 0.4 else 0.8), reason = ''scored''\<rparr>, Suc n)),
      generate_content = (\<lambda>req n. (Inr (VideoScript_content stub_script), Suc n)),
      generate_GenericJudgeOutput = (\<lambda>req n. (Inr (stub_judge 2), Suc n)),
      generate_PersonaJudgeOutput = (\<lambda>req n. (Inr (stub_persona_judge 2), Suc n))\<rparr>"

definition stub_config :: CreativityConfig where
  "stub_config = \<lparr>creativity_level = 0.7, quality_threshold = 0.75\<rparr>"

definition stub_generation :: GenerationResult where
  "stub_generation =
     \<lparr>gr_content = VideoScript_content stub_script,
      gr_selected_concept = stub_concept ''second'',
      gr_concept_score = 0.8,
      gr_content_type = VIDEO_SCRIPT,
      gr_concepts = [stub_concept ''first'', stub_concept ''second''],
      gr_scored_concepts =
        [\<lparr>concept = stub_concept ''first'', score = \<lparr>quality_score = 0.4, reason = ''scored''\<rparr>\<rparr>,
         \<lparr>concept = stub_concept ''second'', score = \<lparr>quality_score = 0.8, reason = ''scored''\<rparr>\<rparr>],
      gr_product_context = [(''name'', JStr ''Acme'')],
      gr_reference_examples = None,
      gr_generation_uuid = ''1700000000_0a1b2c3d''\<rparr>"

text \<open>A registry with a second entry, and an evaluator method that raises.\<close>

definition extended_registry :: registry where
  "extended_registry =
     CONTENT_REGISTRY(LINKEDIN_POST \<mapsto>
        \<lparr>ideation_system_prompt = ''POST_IDEATION_SYSTEM'',
         ideation_user_prompt_template = ''POST_IDEATION_USER_TEMPLATE'',
         judge_system_prompt = ''POST_JUDGE_SYSTEM'',
         judge_user_prompt_template = ''POST_JUDGE_USER_TEMPLATE'',
         writing_system_prompt = ''POST_WRITING_SYSTEM'',
         writing_user_prompt_template = ''POST_WRITING_USER_TEMPLATE'',
         output_schema = ''LinkedInPost''\<rparr>)"

definition raising_score_script ::
  "content \<Rightarrow> (string \<times> json) list \<Rightarrow> nat \<Rightarrow> (error + CreativityAssessmentResult) \<times> nat" where
  "raising_score_script script product_context n = (Inl (ValueError ''evaluation failed''), Suc n)"

section \<open>Properties of core/config.py\<close>

lemma round_half_even_bounds:
  "of_int a \<le> y \<Longrightarrow> y \<le> of_int b \<Longrightarrow> a \<le> round_half_even y \<and> round_half_even y \<le> b"
  unfolding round_half_even_def Let_def by (auto; linarith)

lemma py_round_2_bounds:
  assumes "of_int a / 100 \<le> x" and "x \<le> of_int b / 100"
  shows "of_int a / 100 \<le> py_round x 2 \<and> py_round x 2 \<le> of_int b / 100"
proof -
  have "of_int a \<le> x * 10 ^ 2" and "x * 10 ^ 2 \<le> of_int b"
    using assms by simp_all
  then have "a \<le> round_half_even (x * 10 ^ 2) \<and> round_half_even (x * 10 ^ 2) \<le> b"
    by (rule round_half_even_bounds)
  then show ?thesis
    unfolding py_round_def by (simp add: divide_le_cancel)
qed

lemma temperature_bounds:
  assumes "0 \<le> level" and "level \<le> 1"
  shows "0.4 \<le> py_round (0.4 + 0.8 * level) 2 \<and> py_round (0.4 + 0.8 * level) 2 \<le> 1.2"
  using py_round_2_bounds [of 40 "0.4 + 0.8 * level" 120] assms by simp

lemma top_p_bounds:
  assumes "0 \<le> level" and "level \<le> 1"
  shows "0.6 \<le> py_round (0.6 + 0.4 * level) 2 \<and> py_round (0.6 + 0.4 * level) 2 \<le> 1"
  using py_round_2_bounds [of 60 "0.6 + 0.4 * level" 100] assms by simp

lemma branches_eq:
  assumes "0 \<le> level"
  shows "max 2 (py_int (2 + 6 * level)) = max 2 \<lfloor>2 + 6 * level\<rfloor>"
  using assms by (simp add: py_int_def)

lemma branches_bounds:
  assumes "0 \<le> level" and "level \<le> 1"
  shows "2 \<le> max 2 \<lfloor>2 + 6 * level\<rfloor> \<and> max 2 \<lfloor>2 + 6 * level\<rfloor> \<le> 8"
proof -
  have "2 + 6 * level \<le> 8" using assms by simp
  then have "\<lfloor>2 + 6 * level\<rfloor> \<le> 8" by (simp add: floor_le_iff)
  then show ?thesis by simp
qed

lemma map_creativity_Inr:
  "map_creativity cl qt =
     Inr \<lparr>temperature = py_round (0.4 + 0.8 * max 0 (min 1 cl)) 2,
          top_p = py_round (0.6 + 0.4 * max 0 (min 1 cl)) 2,
          num_branches = max 2 \<lfloor>2 + 6 * max 0 (min 1 cl)\<rfloor>,
          ep_quality_threshold = qt\<rparr>"
proof -
  define level where "level = max 0 (min 1 cl)"
  have lv: "0 \<le> level" "level \<le> 1" by (simp_all add: level_def)
  note t = temperature_bounds [OF lv] and p = top_p_bounds [OF lv]
    and b = branches_bounds [OF lv] and e = branches_eq [OF lv(1)]
  have "mk_EngineParameters (py_round (0.4 + 0.8 * level) 2) (py_round (0.6 + 0.4 * level) 2)
          (max 2 (py_int (2 + 6 * level))) qt =
        Inr \<lparr>temperature = py_round (0.4 + 0.8 * level) 2,
          top_p = py_round (0.6 + 0.4 * level) 2,
          num_branches = max 2 \<lfloor>2 + 6 * level\<rfloor>,
          ep_quality_threshold = qt\<rparr>"
    unfolding mk_EngineParameters_def e using t p b by auto
  then show ?thesis
    unfolding map_creativity_def Let_def level_def .
qed




text \<open>
  Claim C9. \<open>map_creativity\<close> is total: for every creativity level, also outside
  \<open>[0, 1]\<close>, and every quality threshold it returns parameters that pass the checks of
  \<open>EngineParameters.__post_init__\<close> (temperature in \<open>[0, 2]\<close>, top_p in \<open>[0, 1]\<close>, at
  least one branch), so none of its \<open>ValueError\<close> branches is taken.
\<close>

theorem map_creativity_total:
  "\<exists>p. map_creativity cl qt = Inr p
     \<and> 0 \<le> temperature p \<and> temperature p \<le> 2
     \<and> 0 \<le> top_p p \<and> top_p p \<le> 1
     \<and> 1 \<le> num_branches p
     \<and> mk_EngineParameters (temperature p) (top_p p) (num_branches p) (ep_quality_threshold p) = Inr p"
proof -
  define level where "level = max 0 (min 1 cl)"
  define p where "p = \<lparr>temperature = py_round (0.4 + 0.8 * level) 2,
          top_p = py_round (0.6 + 0.4 * level) 2,
          num_branches = max 2 \<lfloor>2 + 6 * level\<rfloor>,
          ep_quality_threshold = qt\<rparr>"
  have lv: "0 \<le> level" "level \<le> 1" by (simp_all add: level_def)
  have r: "map_creativity cl qt = Inr p"
    unfolding p_def level_def by (rule map_creativity_Inr)
  have t: "0 \<le> temperature p \<and> temperature p \<le> 2"
    unfolding p_def using temperature_bounds [OF lv] by simp
  have tp: "0 \<le> top_p p \<and> top_p p \<le> 1"
    unfolding p_def using top_p_bounds [OF lv] by simp
  have b: "1 \<le> num_branches p"
    unfolding p_def using branches_bounds [OF lv] by simp
  have "mk_EngineParameters (temperature p) (top_p p) (num_branches p) (ep_quality_threshold p) = Inr p"
    unfolding mk_EngineParameters_def using t tp b by auto
  with r t tp b show ?thesis by blast
qed

theorem map_creativity_total_witness:
  "map_creativity 7 (-3) = Inr \<lparr>temperature = 1.2, top_p = 1, num_branches = 8, ep_quality_threshold = -3\<rparr>"
  using map_creativity_total [of 7 "-3"]
  by (simp add: map_creativity_def mk_EngineParameters_def py_round_def round_half_even_def py_int_def Let_def)

text \<open>
  Claim C6. Constructing a \<open>CreativityConfig\<close> succeeds when both the creativity level
  and the quality threshold lie in \<open>[0, 1]\<close>, the bounds 0 and 1 included, and raises a
  \<open>ValueError\<close> when either of them lies strictly outside that range.
\<close>

theorem CreativityConfig_validation:
  "(0 \<le> cl \<and> cl \<le> 1 \<and> 0 \<le> qt \<and> qt \<le> 1
      \<longrightarrow> mk_CreativityConfig cl qt = Inr \<lparr>creativity_level = cl, quality_threshold = qt\<rparr>)
   \<and> (cl < 0 \<or> 1 < cl \<or> qt < 0 \<or> 1 < qt
      \<longrightarrow> (\<exists>msg. mk_CreativityConfig cl qt = Inl (ValueError msg)))"
  by (auto simp: mk_CreativityConfig_def)

theorem CreativityConfig_validation_witness:
  "mk_CreativityConfig 0 1 = Inr \<lparr>creativity_level = 0, quality_threshold = 1\<rparr>
   \<and> mk_CreativityConfig 1 0 = Inr \<lparr>creativity_level = 1, quality_threshold = 0\<rparr>
   \<and> (\<exists>msg. mk_CreativityConfig 1.5 0.5 = Inl (ValueError msg))
   \<and> (\<exists>msg. mk_CreativityConfig 0.5 (-0.1) = Inl (ValueError msg))"
  using CreativityConfig_validation [of 0 1] CreativityConfig_validation [of 1 0]
    CreativityConfig_validation [of "1.5" "0.5"] CreativityConfig_validation [of "0.5" "-0.1"]
  by simp

section \<open>Properties of the selection\<close>

lemma py_max_loop_mem: "py_max_loop key best xs \<in> set (best # xs)"
  by (induction xs arbitrary: best) (simp, force)

lemma py_max_loop_ge_best: "key best \<le> key (py_max_loop key best xs)"
proof (induction xs arbitrary: best)
  case Nil
  show ?case by simp
next
  case (Cons x xs)
  have "key best \<le> key (if key best < key x then x else best)" by simp
  also have "\<dots> \<le> key (py_max_loop key (if key best < key x then x else best) xs)"
    by (rule Cons.IH)
  finally show ?case by simp
qed

lemma py_max_loop_ge: "y \<in> set (best # xs) \<Longrightarrow> key y \<le> key (py_max_loop key best xs)"
proof (induction xs arbitrary: best)
  case Nil
  then show ?case by simp
next
  case (Cons x xs)
  let ?b = "if key best < key x then x else best"
  from Cons.prems consider "y = best" | "y = x" | "y \<in> set xs" by auto
  then show ?case
  proof cases
    case 1
    have "key y \<le> key ?b" using 1 by simp
    also have "\<dots> \<le> key (py_max_loop key ?b xs)" by (rule py_max_loop_ge_best)
    finally show ?thesis by simp
  next
    case 2
    have "key y \<le> key ?b" using 2 by simp
    also have "\<dots> \<le> key (py_max_loop key ?b xs)" by (rule py_max_loop_ge_best)
    finally show ?thesis by simp
  next
    case 3
    then have "y \<in> set (?b # xs)" by simp
    then have "key y \<le> key (py_max_loop key ?b xs)" by (rule Cons.IH)
    then show ?thesis by simp
  qed
qed

lemma py_max_by_nonempty:
  assumes "xs \<noteq> []"
  shows "\<exists>b. py_max_by key xs = Inr b \<and> b \<in> set xs \<and> (\<forall>y\<in>set xs. key y \<le> key b)"
proof -
  from assms obtain x rest where xs: "xs = x # rest" by (cases xs) auto
  have "py_max_by key xs = Inr (py_max_loop key x rest)"
    by (simp add: py_max_by_def xs)
  moreover have "py_max_loop key x rest \<in> set xs"
    unfolding xs by (rule py_max_loop_mem)
  moreover have "\<forall>y\<in>set xs. key y \<le> key (py_max_loop key x rest)"
    unfolding xs using py_max_loop_ge [of _ x rest key] by blast
  ultimately show ?thesis by blast
qed

lemma get_params_Inr:
  "\<exists>params. get_params config = Inr params
     \<and> ep_quality_threshold params = quality_threshold config"
  unfolding get_params_def map_creativity_Inr by simp

text \<open>
  Claim C3. For a non-empty list of scored concepts and any quality threshold, the
  selection returns a concept of the list (it does not raise): when some concept
  reaches the threshold, the selected concept reaches it and no concept reaching it
  has a greater score; when none does, no concept of the whole list has a greater
  score than the selected one. The selection raises exactly when the list is empty.
\<close>

theorem select_best_concept_spec:
  "(scored_concepts = [] \<longrightarrow>
      select_best_concept config scored_concepts =
        Inl (ValueError ''No scored concepts available for selection.''))
   \<and> (scored_concepts \<noteq> [] \<longrightarrow>
      (\<exists>best. select_best_concept config scored_concepts = Inr best
         \<and> best \<in> set scored_concepts
         \<and> (if \<exists>sc\<in>set scored_concepts. quality_threshold config \<le> sc_quality_score sc
            then quality_threshold config \<le> sc_quality_score best
               \<and> (\<forall>sc\<in>set scored_concepts. quality_threshold config \<le> sc_quality_score sc
                     \<longrightarrow> sc_quality_score sc \<le> sc_quality_score best)
            else (\<forall>sc\<in>set scored_concepts. sc_quality_score sc \<le> sc_quality_score best))))"
proof -
  obtain params where p: "get_params config = Inr params"
    and thr: "ep_quality_threshold params = quality_threshold config"
    using get_params_Inr by blast
  define valid where
    "valid = filter (\<lambda>sc. quality_threshold config \<le> sc_quality_score sc) scored_concepts"
  have sel: "select_best_concept config scored_concepts =
      (if (if valid = [] then scored_concepts else valid) = [] then
         Inl (ValueError ''No scored concepts available for selection.'')
       else py_max_by sc_quality_score (if valid = [] then scored_concepts else valid))"
    by (simp add: select_best_concept_def p thr valid_def Let_def)
  have empty: "select_best_concept config scored_concepts =
        Inl (ValueError ''No scored concepts available for selection.'')"
    if "scored_concepts = []"
    unfolding sel valid_def using that by simp
  have nonempty: "\<exists>best. select_best_concept config scored_concepts = Inr best
         \<and> best \<in> set scored_concepts
         \<and> (if \<exists>sc\<in>set scored_concepts. quality_threshold config \<le> sc_quality_score sc
            then quality_threshold config \<le> sc_quality_score best
               \<and> (\<forall>sc\<in>set scored_concepts. quality_threshold config \<le> sc_quality_score sc
                     \<longrightarrow> sc_quality_score sc \<le> sc_quality_score best)
            else (\<forall>sc\<in>set scored_concepts. sc_quality_score sc \<le> sc_quality_score best))"
    if ne: "scored_concepts \<noteq> []"
  proof (cases "valid = []")
    case True
    then have none: "\<not> (\<exists>sc\<in>set scored_concepts. quality_threshold config \<le> sc_quality_score sc)"
      by (auto simp: valid_def filter_empty_conv)
    from py_max_by_nonempty [OF ne, of sc_quality_score] obtain b where
      b: "py_max_by sc_quality_score scored_concepts = Inr b" "b \<in> set scored_concepts"
         "\<forall>y\<in>set scored_concepts. sc_quality_score y \<le> sc_quality_score b"
      by blast
    have "select_best_concept config scored_concepts = Inr b"
      using True ne b(1) by (simp add: sel)
    with b none show ?thesis by auto
  next
    case False
    then have some: "\<exists>sc\<in>set scored_concepts. quality_threshold config \<le> sc_quality_score sc"
      by (auto simp: valid_def filter_empty_conv)
    from py_max_by_nonempty [OF False, of sc_quality_score] obtain b where
      b: "py_max_by sc_quality_score valid = Inr b" "b \<in> set valid"
         "\<forall>y\<in>set valid. sc_quality_score y \<le> sc_quality_score b"
      by blast
    have r: "select_best_concept config scored_concepts = Inr b"
      using False b(1) by (simp add: sel)
    have m: "b \<in> set scored_concepts" "quality_threshold config \<le> sc_quality_score b"
      using b(2) by (simp_all add: valid_def)
    have "\<forall>sc\<in>set scored_concepts. quality_threshold config \<le> sc_quality_score sc
            \<longrightarrow> sc_quality_score sc \<le> sc_quality_score b"
      using b(3) by (simp add: valid_def)
    with r m some show ?thesis by auto
  qed
  from empty nonempty show ?thesis by blast
qed

theorem select_best_concept_spec_witness:
  "select_best_concept \<lparr>creativity_level = 0.7, quality_threshold = 0.75\<rparr>
     [\<lparr>concept = \<lparr>title = ''a'', description = ''d'', hook_idea = ''h''\<rparr>,
       score = \<lparr>quality_score = 0.3, reason = ''weak''\<rparr>\<rparr>,
      \<lparr>concept = \<lparr>title = ''b'', description = ''d'', hook_idea = ''h''\<rparr>,
       score = \<lparr>quality_score = 0.9, reason = ''strong''\<rparr>\<rparr>,
      \<lparr>concept = \<lparr>title = ''c'', description = ''d'', hook_idea = ''h''\<rparr>,
       score = \<lparr>quality_score = 0.8, reason = ''good''\<rparr>\<rparr>]
   = Inr \<lparr>concept = \<lparr>title = ''b'', description = ''d'', hook_idea = ''h''\<rparr>,
          score = \<lparr>quality_score = 0.9, reason = ''strong''\<rparr>\<rparr>
   \<and> select_best_concept \<lparr>creativity_level = 0.7, quality_threshold = 0.75\<rparr>
     [\<lparr>concept = \<lparr>title = ''a'', description = ''d'', hook_idea = ''h''\<rparr>,
       score = \<lparr>quality_score = 0.3, reason = ''weak''\<rparr>\<rparr>,
      \<lparr>concept = \<lparr>title = ''c'', description = ''d'', hook_idea = ''h''\<rparr>,
       score = \<lparr>quality_score = 0.5, reason = ''fair''\<rparr>\<rparr>]
   = Inr \<lparr>concept = \<lparr>title = ''c'', description = ''d'', hook_idea = ''h''\<rparr>,
          score = \<lparr>quality_score = 0.5, reason = ''fair''\<rparr>\<rparr>
   \<and> select_best_concept \<lparr>creativity_level = 0.7, quality_threshold = 0.75\<rparr> []
   = Inl (ValueError ''No scored concepts available for selection.'')"
  using select_best_concept_spec [of "[]" "\<lparr>creativity_level = 0.7, quality_threshold = 0.75\<rparr>"]
    select_best_concept_spec [of "[\<lparr>concept = \<lparr>title = ''a'', description = ''d'', hook_idea = ''h''\<rparr>,
       score = \<lparr>quality_score = 0.3, reason = ''weak''\<rparr>\<rparr>,
      \<lparr>concept = \<lparr>title = ''b'', description = ''d'', hook_idea = ''h''\<rparr>,
       score = \<lparr>quality_score = 0.9, reason = ''strong''\<rparr>\<rparr>,
      \<lparr>concept = \<lparr>title = ''c'', description = ''d'', hook_idea = ''h''\<rparr>,
       score = \<lparr>quality_score = 0.8, reason = ''good''\<rparr>\<rparr>]"
      "\<lparr>creativity_level = 0.7, quality_threshold = 0.75\<rparr>"]
    select_best_concept_spec [of "[\<lparr>concept = \<lparr>title = ''a'', description = ''d'', hook_idea = ''h''\<rparr>,
       score = \<lparr>quality_score = 0.3, reason = ''weak''\<rparr>\<rparr>,
      \<lparr>concept = \<lparr>title = ''c'', description = ''d'', hook_idea = ''h''\<rparr>,
       score = \<lparr>quality_score = 0.5, reason = ''fair''\<rparr>\<rparr>]"
      "\<lparr>creativity_level = 0.7, quality_threshold = 0.75\<rparr>"]
  by (simp add: select_best_concept_def get_params_def map_creativity_def mk_EngineParameters_def
      py_round_def round_half_even_def py_int_def Let_def py_max_by_def sc_quality_score_def)

section \<open>Properties of the evaluator\<close>

lemma judge_getattr_fields:
  "(name, field) \<in> set criterion_fields \<Longrightarrow> judge_getattr ev name = Inr (field ev)"
  by (auto simp: criterion_fields_def judge_getattr_def)

lemma criterion_scores_fields:
  assumes "(name, field) \<in> set criterion_fields"
  shows "criterion_scores name evals = Inr (map (\<lambda>ev. criterion_score (field ev)) evals)"
  by (induction evals) (simp_all add: judge_getattr_fields [OF assms] bind_err_def)

lemma sample_std_nonneg: "0 \<le> sample_std xs"
proof (cases "length xs < 2")
  case True
  then show ?thesis by (simp add: sample_std_def)
next
  case False
  have "0 \<le> sum_list (map (\<lambda>x. (x - arithmetic_mean xs)\<^sup>2) xs)"
    by (rule sum_list_nonneg) auto
  then have "0 \<le> sum_list (map (\<lambda>x. (x - arithmetic_mean xs)\<^sup>2) xs) / real (length xs - 1)"
    by (rule divide_nonneg_nonneg) simp
  then have "0 \<le> sqrt (sum_list (map (\<lambda>x. (x - arithmetic_mean xs)\<^sup>2) xs) / real (length xs - 1))"
    by (rule real_sqrt_ge_zero)
  moreover have "sample_std xs =
      sqrt (sum_list (map (\<lambda>x. (x - arithmetic_mean xs)\<^sup>2) xs) / real (length xs - 1))"
    unfolding sample_std_def using False by (simp only: if_False)
  ultimately show ?thesis by (simp only:)
qed

lemma statistics_mean_Inr: "xs \<noteq> [] \<Longrightarrow> statistics_mean xs = Inr (arithmetic_mean xs)"
  by (simp add: statistics_mean_def arithmetic_mean_def)

lemma stdev_or_zero_Inr: "stdev_or_zero xs = Inr (sample_std xs)"
  by (auto simp: stdev_or_zero_def statistics_stdev_def sample_std_def arithmetic_mean_def Let_def)

lemma mk_CriterionStats_Inr:
  "0 \<le> s \<Longrightarrow> mk_CriterionStats m s = Inr \<lparr>criterion_mean = m, criterion_std = s\<rparr>"
  by (simp add: mk_CriterionStats_def)

lemma mk_EvaluationStats_Inr:
  "0 \<le> s \<Longrightarrow> mk_EvaluationStats m s = Inr \<lparr>mean = m, std = s\<rparr>"
  by (simp add: mk_EvaluationStats_def)

lemma criteria_loop_step:
  assumes "(name, field) \<in> set criterion_fields" and "evals \<noteq> []"
  shows "criteria_loop (name # names) evals stats =
     criteria_loop names evals
       (stats(name \<mapsto> \<lparr>criterion_mean = arithmetic_mean (map (\<lambda>ev. criterion_score (field ev)) evals),
                        criterion_std = sample_std (map (\<lambda>ev. criterion_score (field ev)) evals)\<rparr>))"
  using assms(2)
  by (simp add: criterion_scores_fields [OF assms(1)] statistics_mean_Inr stdev_or_zero_Inr
      mk_CriterionStats_Inr sample_std_nonneg bind_err_def)

lemma criteria_loop_spec:
  fixes evals :: "'a GenericJudgeOutput_scheme list"
  assumes "evals \<noteq> []"
  shows "criteria_loop criterion_names evals Map.empty = Inr (spec_criteria evals)"
proof -
  have f: "(''hook_originality'', hook_originality) \<in> set (criterion_fields :: (string \<times> ('a GenericJudgeOutput_scheme \<Rightarrow> CriterionScore)) list)"
    "(''visual_creativity'', visual_creativity) \<in> set (criterion_fields :: (string \<times> ('a GenericJudgeOutput_scheme \<Rightarrow> CriterionScore)) list)"
    "(''narrative_originality'', narrative_originality) \<in> set (criterion_fields :: (string \<times> ('a GenericJudgeOutput_scheme \<Rightarrow> CriterionScore)) list)"
    "(''entertainment_value'', entertainment_value) \<in> set (criterion_fields :: (string \<times> ('a GenericJudgeOutput_scheme \<Rightarrow> CriterionScore)) list)"
    "(''brand_integration'', brand_integration) \<in> set (criterion_fields :: (string \<times> ('a GenericJudgeOutput_scheme \<Rightarrow> CriterionScore)) list)"
    "(''platform_fit'', platform_fit) \<in> set (criterion_fields :: (string \<times> ('a GenericJudgeOutput_scheme \<Rightarrow> CriterionScore)) list)"
    by (simp_all add: criterion_fields_def)
  have "criteria_loop criterion_names evals Map.empty = Inr (spec_criteria evals)"
    unfolding criterion_names_def
    apply (subst criteria_loop_step [OF f(1) assms])
    apply (subst criteria_loop_step [OF f(2) assms])
    apply (subst criteria_loop_step [OF f(3) assms])
    apply (subst criteria_loop_step [OF f(4) assms])
    apply (subst criteria_loop_step [OF f(5) assms])
    apply (subst criteria_loop_step [OF f(6) assms])
    apply (simp only: criteria_loop.simps(1) sum.inject)
    apply (rule ext)
    apply (simp add: spec_criteria_def criterion_fields_def)
    done
  then show ?thesis .
qed

lemma sweep_statistics_spec:
  assumes "evals \<noteq> []"
  shows "sweep_statistics evals =
     Inr (\<lparr>mean = arithmetic_mean (overall_scores evals), std = sample_std (overall_scores evals)\<rparr>,
          spec_criteria evals)"
proof -
  have ne: "overall_scores evals \<noteq> []"
    using assms by (simp add: overall_scores_def)
  show ?thesis
    unfolding sweep_statistics_def Let_def overall_scores_def [symmetric]
    by (simp add: statistics_mean_Inr [OF ne] stdev_or_zero_Inr criteria_loop_spec [OF assms]
        mk_EvaluationStats_Inr sample_std_nonneg bind_err_def)
qed

lemma temperature_loop_spec:
  "snd (fst (temperature_loop provider user temps outs succ s)) =
     succ @ successes (fst (run_calls (generate_GenericJudgeOutput provider)
                              (map (temperature_request user) temps) s))
   \<and> snd (temperature_loop provider user temps outs succ s) =
     snd (run_calls (generate_GenericJudgeOutput provider) (map (temperature_request user) temps) s)"
proof (induction temps arbitrary: outs succ s)
  case Nil
  show ?case by simp
next
  case (Cons temp temps)
  obtain r s' where call: "generate_GenericJudgeOutput provider (temperature_request user temp) s = (r, s')"
    by (cases "generate_GenericJudgeOutput provider (temperature_request user temp) s")
  obtain rs s'' where rest: "run_calls (generate_GenericJudgeOutput provider)
      (map (temperature_request user) temps) s' = (rs, s'')"
    by (cases "run_calls (generate_GenericJudgeOutput provider) (map (temperature_request user) temps) s'")
  show ?case
  proof (cases r)
    case (Inl e)
    with call rest Cons.IH [of outs succ s'] show ?thesis by simp
  next
    case (Inr out)
    with call rest
      Cons.IH [of "outs @ [\<lparr>te_temperature = temp,
                          te_overall_creativity = criterion_score (overall_creativity out),
                          te_judge_output = out\<rparr>]" "succ @ [out]" s']
    show ?thesis by simp
  qed
qed

lemma persona_loop_spec:
  "snd (fst (persona_loop self provider pc sj ps outs succ s)) =
     succ @ successes (fst (run_calls (generate_PersonaJudgeOutput provider)
                              (map (persona_request self pc sj) ps) s))
   \<and> snd (persona_loop self provider pc sj ps outs succ s) =
     snd (run_calls (generate_PersonaJudgeOutput provider) (map (persona_request self pc sj) ps) s)"
proof (induction ps arbitrary: outs succ s)
  case Nil
  show ?case by simp
next
  case (Cons p ps)
  obtain r s' where call: "generate_PersonaJudgeOutput provider (persona_request self pc sj p) s = (r, s')"
    by (cases "generate_PersonaJudgeOutput provider (persona_request self pc sj p) s")
  obtain rs s'' where rest: "run_calls (generate_PersonaJudgeOutput provider)
      (map (persona_request self pc sj) ps) s' = (rs, s'')"
    by (cases "run_calls (generate_PersonaJudgeOutput provider) (map (persona_request self pc sj) ps) s'")
  show ?case
  proof (cases r)
    case (Inl e)
    with call rest Cons.IH [of outs succ s'] show ?thesis by simp
  next
    case (Inr out)
    with call rest
      Cons.IH [of "outs @ [\<lparr>pe_persona = persona_name p,
                          pe_overall_creativity = criterion_score (overall_creativity out),
                          pe_judge_output = out\<rparr>]" "succ @ [out]" s']
    show ?thesis by simp
  qed
qed

lemma temperature_sweep_spec:
  fixes provider :: "'s LLMProvider" and self sj pc s
  defines "run \<equiv> run_calls (generate_GenericJudgeOutput provider)
      (map (temperature_request (build_generic_user_prompt pc sj)) (temperature_grid self)) s"
  shows "temperature_sweep self provider sj pc s =
     (if length (successes (fst run)) < 4 then Inr None
      else Inr (Some \<lparr>tb_overall = \<lparr>mean = arithmetic_mean (overall_scores (successes (fst run))),
                                    std = sample_std (overall_scores (successes (fst run)))\<rparr>,
                      tb_criteria = spec_criteria (successes (fst run)),
                      by_temperature = fst (fst (temperature_loop provider
                         (build_generic_user_prompt pc sj) (temperature_grid self) [] [] s))\<rparr>),
      snd run)"
proof -
  let ?loop = "temperature_loop provider (build_generic_user_prompt pc sj) (temperature_grid self) [] [] s"
  obtain outs ok s' where loop: "?loop = ((outs, ok), s')"
    by (cases ?loop) auto
  from temperature_loop_spec [of provider "build_generic_user_prompt pc sj" "temperature_grid self" "[]" "[]" s]
  have ok: "ok = successes (fst run)" and s': "s' = snd run"
    unfolding loop run_def by simp_all
  show ?thesis
  proof (cases "length ok < 4")
    case True
    then show ?thesis
      unfolding temperature_sweep_def Let_def loop using ok s' by simp
  next
    case False
    then have "ok \<noteq> []" by auto
    from sweep_statistics_spec [OF this] False show ?thesis
      unfolding temperature_sweep_def Let_def loop using ok s' by (simp add: bind_err_def)
  qed
qed

lemma persona_sweep_spec:
  fixes provider :: "'s LLMProvider" and self sj pc s
  defines "run \<equiv> run_calls (generate_PersonaJudgeOutput provider)
      (map (persona_request self pc sj) (personas self)) s"
  shows "persona_sweep self provider sj pc s =
     (if length (successes (fst run)) < 4 then Inr None
      else Inr (Some \<lparr>pb_overall = \<lparr>mean = arithmetic_mean (overall_scores (successes (fst run))),
                                    std = sample_std (overall_scores (successes (fst run)))\<rparr>,
                      pb_criteria = spec_criteria (successes (fst run)),
                      by_persona = fst (fst (persona_loop self provider pc sj (personas self) [] [] s))\<rparr>),
      snd run)"
proof -
  let ?loop = "persona_loop self provider pc sj (personas self) [] [] s"
  obtain outs ok s' where loop: "?loop = ((outs, ok), s')"
    by (cases ?loop) auto
  from persona_loop_spec [of self provider pc sj "personas self" "[]" "[]" s]
  have ok: "ok = successes (fst run)" and s': "s' = snd run"
    unfolding loop run_def by simp_all
  show ?thesis
  proof (cases "length ok < 4")
    case True
    then show ?thesis
      unfolding persona_sweep_def Let_def loop using ok s' by simp
  next
    case False
    then have "ok \<noteq> []" by auto
    from sweep_statistics_spec [OF this] False show ?thesis
      unfolding persona_sweep_def Let_def loop using ok s' by (simp add: bind_err_def)
  qed
qed

lemma length_run_calls: "length (fst (run_calls call rs s)) = length rs"
proof (induction rs arbitrary: s)
  case Nil
  show ?case by simp
next
  case (Cons r rs)
  obtain x s' where c: "call r s = (x, s')" by (cases "call r s")
  obtain xs s'' where r: "run_calls call rs s' = (xs, s'')" by (cases "run_calls call rs s'")
  from Cons.IH [of s'] c r show ?case by simp
qed

lemma spec_criteria_lookup:
  "(name, field) \<in> set criterion_fields \<Longrightarrow>
     spec_criteria evals name =
       Some \<lparr>criterion_mean = arithmetic_mean (map (\<lambda>ev. criterion_score (field ev)) evals),
             criterion_std = sample_std (map (\<lambda>ev. criterion_score (field ev)) evals)\<rparr>"
  by (auto simp: spec_criteria_def criterion_fields_def)

lemma dom_spec_criteria: "dom (spec_criteria evals) = set criterion_names"
  by (auto simp: spec_criteria_def criterion_fields_def criterion_names_def dom_def)

lemma spec_criteria_std_nonneg: "spec_criteria evals name = Some cs \<Longrightarrow> 0 \<le> criterion_std cs"
  by (auto simp: spec_criteria_def criterion_fields_def sample_std_nonneg split: if_splits)

lemma zero_criteria_spec:
  "zero_criteria names m0 =
     Inr (\<lambda>name. if name \<in> set names then Some \<lparr>criterion_mean = 0, criterion_std = 0\<rparr> else m0 name)"
proof (induction names arbitrary: m0)
  case Nil
  show ?case by simp
next
  case (Cons n names)
  show ?case
    by (auto simp: Cons.IH mk_CriterionStats_def bind_err_def)
qed

lemma aggregate_loop_spec:
  assumes "\<forall>n\<in>set names. \<exists>t p. tb_criteria tb n = Some t \<and> pb_criteria pb n = Some p
              \<and> 0 \<le> criterion_std t \<and> 0 \<le> criterion_std p"
  shows "aggregate_loop names tb pb m0 =
     Inr (\<lambda>n. if n \<in> set names then
                 Some \<lparr>criterion_mean =
                         (criterion_mean (the (tb_criteria tb n)) + criterion_mean (the (pb_criteria pb n))) / 2,
                       criterion_std =
                         max (criterion_std (the (tb_criteria tb n))) (criterion_std (the (pb_criteria pb n)))\<rparr>
               else m0 n)"
  using assms
proof (induction names arbitrary: m0)
  case Nil
  show ?case by simp
next
  case (Cons n names)
  from Cons.prems obtain t p where tp: "tb_criteria tb n = Some t" "pb_criteria pb n = Some p"
    "0 \<le> criterion_std t" "0 \<le> criterion_std p"
    by auto
  have rest: "\<forall>n\<in>set names. \<exists>t p. tb_criteria tb n = Some t \<and> pb_criteria pb n = Some p
              \<and> 0 \<le> criterion_std t \<and> 0 \<le> criterion_std p"
    using Cons.prems by simp
  have step: "aggregate_loop (n # names) tb pb m0 =
      aggregate_loop names tb pb
        (m0(n \<mapsto> \<lparr>criterion_mean = (criterion_mean t + criterion_mean p) / 2,
                     criterion_std = max (criterion_std t) (criterion_std p)\<rparr>))"
  proof -
    have "0 \<le> max (criterion_std t) (criterion_std p)" using tp(3) by simp
    from mk_CriterionStats_Inr [OF this] show ?thesis
      by (simp add: criteria_lookup_def bind_err_def tp(1,2))
  qed
  show ?case
    unfolding step Cons.IH [OF rest] using tp by auto
qed

lemma aggregate_results_none:
  "aggregate_results None None =
     Inr \<lparr>overall = \<lparr>mean = 0, std = 0\<rparr>,
          criteria = (\<lambda>name. if name \<in> set criterion_names
                              then Some \<lparr>criterion_mean = 0, criterion_std = 0\<rparr> else None)\<rparr>"
  by (simp add: aggregate_results_def zero_criteria_spec mk_EvaluationStats_def bind_err_def)

lemma aggregate_results_temperature_only:
  "0 \<le> std (tb_overall tb) \<Longrightarrow>
     aggregate_results (Some tb) None = Inr \<lparr>overall = tb_overall tb, criteria = tb_criteria tb\<rparr>"
  by (simp add: aggregate_results_def mk_EvaluationStats_def bind_err_def)

lemma aggregate_results_persona_only:
  "0 \<le> std (pb_overall pb) \<Longrightarrow>
     aggregate_results None (Some pb) = Inr \<lparr>overall = pb_overall pb, criteria = pb_criteria pb\<rparr>"
  by (simp add: aggregate_results_def mk_EvaluationStats_def bind_err_def)

lemma aggregate_results_both:
  assumes "TemperatureBlock_valid tb" and "PersonaBlock_valid pb"
    and "set criterion_names \<subseteq> dom (tb_criteria tb)"
    and "set criterion_names \<subseteq> dom (pb_criteria pb)"
  shows "aggregate_results (Some tb) (Some pb) =
     Inr \<lparr>overall = \<lparr>mean = (mean (tb_overall tb) + mean (pb_overall pb)) / 2,
                     std = max (std (tb_overall tb)) (std (pb_overall pb))\<rparr>,
          criteria = (\<lambda>n. if n \<in> set criterion_names then
                 Some \<lparr>criterion_mean =
                         (criterion_mean (the (tb_criteria tb n)) + criterion_mean (the (pb_criteria pb n))) / 2,
                       criterion_std =
                         max (criterion_std (the (tb_criteria tb n))) (criterion_std (the (pb_criteria pb n)))\<rparr>
               else None)\<rparr>"
proof -
  have pre: "\<forall>n\<in>set criterion_names. \<exists>t p. tb_criteria tb n = Some t \<and> pb_criteria pb n = Some p
              \<and> 0 \<le> criterion_std t \<and> 0 \<le> criterion_std p"
  proof
    fix n assume n: "n \<in> set criterion_names"
    from n assms(3) obtain t where t: "tb_criteria tb n = Some t" by blast
    from n assms(4) obtain p where p: "pb_criteria pb n = Some p" by blast
    from t assms(1) have "0 \<le> criterion_std t" by (auto simp: TemperatureBlock_valid_def)
    moreover from p assms(2) have "0 \<le> criterion_std p" by (auto simp: PersonaBlock_valid_def)
    ultimately show "\<exists>t p. tb_criteria tb n = Some t \<and> pb_criteria pb n = Some p
              \<and> 0 \<le> criterion_std t \<and> 0 \<le> criterion_std p"
      using t p by blast
  qed
  have "0 \<le> max (std (tb_overall tb)) (std (pb_overall pb))"
    using assms(1) by (auto simp: TemperatureBlock_valid_def)
  from mk_EvaluationStats_Inr [OF this] show ?thesis
    by (simp add: aggregate_results_def aggregate_loop_spec [OF pre] bind_err_def)
qed

lemma stub_blocks_valid:
  "TemperatureBlock_valid stub_temperature_block" "PersonaBlock_valid stub_persona_block"
  "dom (tb_criteria stub_temperature_block) = set criterion_names"
  "dom (pb_criteria stub_persona_block) = set criterion_names"
  by (auto simp: TemperatureBlock_valid_def PersonaBlock_valid_def stub_temperature_block_def
      stub_persona_block_def dom_def split: if_splits)

lemma set_criterion_names:
  "set criterion_names =
     {''hook_originality'', ''visual_creativity'', ''narrative_originality'',
      ''entertainment_value'', ''brand_integration'', ''platform_fit''}"
  by (simp add: criterion_names_def)

lemma aggregate_results_invariant:
  assumes "\<forall>b. tb = Some b \<longrightarrow> TemperatureBlock_valid b \<and> dom (tb_criteria b) = set criterion_names"
    and "\<forall>b. pb = Some b \<longrightarrow> PersonaBlock_valid b \<and> dom (pb_criteria b) = set criterion_names"
  shows "\<exists>agg. aggregate_results tb pb = Inr agg
           \<and> dom (criteria agg) = set criterion_names
           \<and> (\<forall>name cs. criteria agg name = Some cs \<longrightarrow> 0 \<le> criterion_std cs)
           \<and> 0 \<le> std (overall agg)"
proof (cases tb)
  case None
  show ?thesis
  proof (cases pb)
    case None
    with \<open>tb = None\<close> show ?thesis
      by (auto simp: aggregate_results_none dom_def split: if_splits)
  next
    case (Some p)
    with assms(2) have v: "PersonaBlock_valid p" "dom (pb_criteria p) = set criterion_names" by auto
    from v(1) have "0 \<le> std (pb_overall p)" by (simp add: PersonaBlock_valid_def)
    from aggregate_results_persona_only [OF this] v Some \<open>tb = None\<close> show ?thesis
      by (auto simp: PersonaBlock_valid_def)
  qed
next
  case (Some t)
  with assms(1) have vt: "TemperatureBlock_valid t" "dom (tb_criteria t) = set criterion_names" by auto
  show ?thesis
  proof (cases pb)
    case None
    from vt(1) have "0 \<le> std (tb_overall t)" by (simp add: TemperatureBlock_valid_def)
    from aggregate_results_temperature_only [OF this] vt None \<open>tb = Some t\<close> show ?thesis
      by (auto simp: TemperatureBlock_valid_def)
  next
    case (Some p)
    with assms(2) have vp: "PersonaBlock_valid p" "dom (pb_criteria p) = set criterion_names" by auto
    have d: "set criterion_names \<subseteq> dom (tb_criteria t)" "set criterion_names \<subseteq> dom (pb_criteria p)"
      using vt(2) vp(2) by simp_all
    have s: "0 \<le> max (std (tb_overall t)) (std (pb_overall p))"
      using vt(1) by (auto simp: TemperatureBlock_valid_def)
    have c: "0 \<le> max (criterion_std (the (tb_criteria t n))) (criterion_std (the (pb_criteria p n)))"
      if "n \<in> set criterion_names" for n
    proof -
      from that d(1) obtain x where x: "tb_criteria t n = Some x" by blast
      with vt(1) have "0 \<le> criterion_std x" by (auto simp: TemperatureBlock_valid_def)
      then show ?thesis by (simp add: x le_max_iff_disj)
    qed
    define agg where "agg = \<lparr>overall = \<lparr>mean = (mean (tb_overall t) + mean (pb_overall p)) / 2,
                     std = max (std (tb_overall t)) (std (pb_overall p))\<rparr>,
          criteria = (\<lambda>n. if n \<in> set criterion_names then
                 Some \<lparr>criterion_mean =
                         (criterion_mean (the (tb_criteria t n)) + criterion_mean (the (pb_criteria p n))) / 2,
                       criterion_std =
                         max (criterion_std (the (tb_criteria t n))) (criterion_std (the (pb_criteria p n)))\<rparr>
               else None)\<rparr>"
    have r: "aggregate_results tb pb = Inr agg"
      unfolding \<open>tb = Some t\<close> Some agg_def by (rule aggregate_results_both [OF vt(1) vp(1) d])
    have dm: "dom (criteria agg) = set criterion_names"
      by (auto simp: agg_def dom_def)
    have sd: "\<forall>name cs. criteria agg name = Some cs \<longrightarrow> 0 \<le> criterion_std cs"
      using c by (auto simp: agg_def split: if_splits)
    have "0 \<le> std (overall agg)" using s by (simp add: agg_def)
    with r dm sd show ?thesis by blast
  qed
qed

lemma temperature_sweep_block:
  "\<exists>r. temperature_sweep self provider sj pc s = (Inr r, snd (temperature_sweep self provider sj pc s))
     \<and> (\<forall>b. r = Some b \<longrightarrow> TemperatureBlock_valid b \<and> dom (tb_criteria b) = set criterion_names)"
proof -
  define run where "run = run_calls (generate_GenericJudgeOutput provider)
      (map (temperature_request (build_generic_user_prompt pc sj)) (temperature_grid self)) s"
  define b where "b = \<lparr>tb_overall = \<lparr>mean = arithmetic_mean (overall_scores (successes (fst run))),
                                    std = sample_std (overall_scores (successes (fst run)))\<rparr>,
                      tb_criteria = spec_criteria (successes (fst run)),
                      by_temperature = fst (fst (temperature_loop provider
                         (build_generic_user_prompt pc sj) (temperature_grid self) [] [] s))\<rparr>"
  have eq: "temperature_sweep self provider sj pc s =
      (if length (successes (fst run)) < 4 then Inr None else Inr (Some b), snd run)"
    unfolding run_def b_def by (rule temperature_sweep_spec)
  have v: "TemperatureBlock_valid b"
    unfolding TemperatureBlock_valid_def
    by (auto simp: b_def sample_std_nonneg dest: spec_criteria_std_nonneg)
  have d: "dom (tb_criteria b) = set criterion_names"
    by (simp add: b_def dom_spec_criteria)
  show ?thesis
  proof (cases "length (successes (fst run)) < 4")
    case True
    then show ?thesis unfolding eq by simp
  next
    case False
    then show ?thesis unfolding eq using v d by simp
  qed
qed

lemma persona_sweep_block:
  "\<exists>r. persona_sweep self provider sj pc s = (Inr r, snd (persona_sweep self provider sj pc s))
     \<and> (\<forall>b. r = Some b \<longrightarrow> PersonaBlock_valid b \<and> dom (pb_criteria b) = set criterion_names)"
proof -
  define run where "run = run_calls (generate_PersonaJudgeOutput provider)
      (map (persona_request self pc sj) (personas self)) s"
  define b where "b = \<lparr>pb_overall = \<lparr>mean = arithmetic_mean (overall_scores (successes (fst run))),
                                    std = sample_std (overall_scores (successes (fst run)))\<rparr>,
                      pb_criteria = spec_criteria (successes (fst run)),
                      by_persona = fst (fst (persona_loop self provider pc sj (personas self) [] [] s))\<rparr>"
  have eq: "persona_sweep self provider sj pc s =
      (if length (successes (fst run)) < 4 then Inr None else Inr (Some b), snd run)"
    unfolding run_def b_def by (rule persona_sweep_spec)
  have v: "PersonaBlock_valid b"
    unfolding PersonaBlock_valid_def
    by (auto simp: b_def sample_std_nonneg dest: spec_criteria_std_nonneg)
  have d: "dom (pb_criteria b) = set criterion_names"
    by (simp add: b_def dom_spec_criteria)
  show ?thesis
  proof (cases "length (successes (fst run)) < 4")
    case True
    then show ?thesis unfolding eq by simp
  next
    case False
    then show ?thesis unfolding eq using v d by simp
  qed
qed

lemma aggregate_results_as_specified:
  assumes "\<forall>b. tb = Some b \<longrightarrow> TemperatureBlock_valid b \<and> dom (tb_criteria b) = set criterion_names"
    and "\<forall>b. pb = Some b \<longrightarrow> PersonaBlock_valid b \<and> dom (pb_criteria b) = set criterion_names"
  shows "\<exists>agg. aggregate_results tb pb = Inr agg \<and> aggregate_as_specified tb pb agg"
proof (cases tb)
  case None
  show ?thesis
  proof (cases pb)
    case None
    with \<open>tb = None\<close> show ?thesis
      by (simp add: aggregate_results_none aggregate_as_specified_def)
  next
    case (Some p)
    with assms(2) have "0 \<le> std (pb_overall p)" by (simp add: PersonaBlock_valid_def)
    from aggregate_results_persona_only [OF this] Some \<open>tb = None\<close> show ?thesis
      by (simp add: aggregate_as_specified_def)
  qed
next
  case (Some t)
  with assms(1) have vt: "TemperatureBlock_valid t" "dom (tb_criteria t) = set criterion_names" by auto
  show ?thesis
  proof (cases pb)
    case None
    from vt(1) have "0 \<le> std (tb_overall t)" by (simp add: TemperatureBlock_valid_def)
    from aggregate_results_temperature_only [OF this] None \<open>tb = Some t\<close> show ?thesis
      by (simp add: aggregate_as_specified_def)
  next
    case (Some p)
    with assms(2) have vp: "PersonaBlock_valid p" "dom (pb_criteria p) = set criterion_names" by auto
    have d: "set criterion_names \<subseteq> dom (tb_criteria t)" "set criterion_names \<subseteq> dom (pb_criteria p)"
      using vt(2) vp(2) by simp_all
    have c: "\<exists>ct cp. tb_criteria t name = Some ct \<and> pb_criteria p name = Some cp
          \<and> (if name \<in> set criterion_names then
                 Some \<lparr>criterion_mean =
                         (criterion_mean (the (tb_criteria t name)) + criterion_mean (the (pb_criteria p name))) / 2,
                       criterion_std =
                         max (criterion_std (the (tb_criteria t name))) (criterion_std (the (pb_criteria p name)))\<rparr>
               else None) =
              Some \<lparr>criterion_mean = (criterion_mean ct + criterion_mean cp) / 2,
                           criterion_std = max (criterion_std ct) (criterion_std cp)\<rparr>"
      if n: "name \<in> set criterion_names" for name
    proof -
      from n d obtain ct cp where "tb_criteria t name = Some ct" "pb_criteria p name = Some cp"
        by blast
      with n show ?thesis by simp
    qed
    show ?thesis
      unfolding \<open>tb = Some t\<close> Some aggregate_results_both [OF vt(1) vp(1) d]
      using c by (simp add: aggregate_as_specified_def)
  qed
qed

lemma score_script_structure:
  "\<exists>tb pb agg s'.
     score_script self provider script pc s =
       (Inr \<lparr>car_temperature_block = tb, car_persona_block = pb, car_aggregate = agg,
             car_raw_judge_outputs = None\<rparr>, s')
     \<and> aggregate_results tb pb = Inr agg
     \<and> (\<forall>b. tb = Some b \<longrightarrow> TemperatureBlock_valid b \<and> dom (tb_criteria b) = set criterion_names)
     \<and> (\<forall>b. pb = Some b \<longrightarrow> PersonaBlock_valid b \<and> dom (pb_criteria b) = set criterion_names)"
proof -
  obtain tb s1 where t: "temperature_sweep self provider (model_dump script) pc s = (Inr tb, s1)"
    and tv: "\<forall>b. tb = Some b \<longrightarrow> TemperatureBlock_valid b \<and> dom (tb_criteria b) = set criterion_names"
    using temperature_sweep_block [of self provider "model_dump script" pc s] by blast
  obtain pb s2 where p: "persona_sweep self provider (model_dump script) pc s1 = (Inr pb, s2)"
    and pv: "\<forall>b. pb = Some b \<longrightarrow> PersonaBlock_valid b \<and> dom (pb_criteria b) = set criterion_names"
    using persona_sweep_block [of self provider "model_dump script" pc s1] by blast
  from aggregate_results_invariant [OF tv pv] obtain agg where
    a: "aggregate_results tb pb = Inr agg"
    by blast
  have "score_script self provider script pc s =
      (Inr \<lparr>car_temperature_block = tb, car_persona_block = pb, car_aggregate = agg,
            car_raw_judge_outputs = None\<rparr>, s2)"
    by (simp add: score_script_def t p a bind_err_def)
  with a tv pv show ?thesis by blast
qed

lemma score_script_as_specified:
  "\<exists>r. fst (score_script self provider script pc s) = Inr r
     \<and> aggregate_as_specified (car_temperature_block r) (car_persona_block r) (car_aggregate r)"
proof -
  from score_script_structure [of self provider script pc s] obtain tb pb agg s' where
    r: "score_script self provider script pc s =
       (Inr \<lparr>car_temperature_block = tb, car_persona_block = pb, car_aggregate = agg,
             car_raw_judge_outputs = None\<rparr>, s')"
    and a: "aggregate_results tb pb = Inr agg"
    and tv: "\<forall>b. tb = Some b \<longrightarrow> TemperatureBlock_valid b \<and> dom (tb_criteria b) = set criterion_names"
    and pv: "\<forall>b. pb = Some b \<longrightarrow> PersonaBlock_valid b \<and> dom (pb_criteria b) = set criterion_names"
    by blast
  from aggregate_results_as_specified [OF tv pv] a have "aggregate_as_specified tb pb agg" by auto
  with r show ?thesis by simp
qed

lemma score_script_Inr:
  "\<exists>r s'. score_script self provider script pc s = (Inr r, s')
     \<and> dom (criteria (car_aggregate r)) = set criterion_names
     \<and> (\<forall>name cs. criteria (car_aggregate r) name = Some cs \<longrightarrow> 0 \<le> criterion_std cs)
     \<and> 0 \<le> std (overall (car_aggregate r))"
proof -
  obtain tb s1 where t: "temperature_sweep self provider (model_dump script) pc s = (Inr tb, s1)"
    and tv: "\<forall>b. tb = Some b \<longrightarrow> TemperatureBlock_valid b \<and> dom (tb_criteria b) = set criterion_names"
    using temperature_sweep_block [of self provider "model_dump script" pc s] by blast
  obtain pb s2 where p: "persona_sweep self provider (model_dump script) pc s1 = (Inr pb, s2)"
    and pv: "\<forall>b. pb = Some b \<longrightarrow> PersonaBlock_valid b \<and> dom (pb_criteria b) = set criterion_names"
    using persona_sweep_block [of self provider "model_dump script" pc s1] by blast
  from aggregate_results_invariant [OF tv pv] obtain agg where
    a: "aggregate_results tb pb = Inr agg" "dom (criteria agg) = set criterion_names"
       "\<forall>name cs. criteria agg name = Some cs \<longrightarrow> 0 \<le> criterion_std cs" "0 \<le> std (overall agg)"
    by blast
  have "score_script self provider script pc s =
      (Inr \<lparr>car_temperature_block = tb, car_persona_block = pb, car_aggregate = agg,
            car_raw_judge_outputs = None\<rparr>, s2)"
    by (simp add: score_script_def t p a(1) bind_err_def)
  with a(2,3,4) show ?thesis by simp
qed

text \<open>
  Claim C1. In both sweeps every call of the batch is made, a failed call being
  skipped: the outcomes are those of the calls made one after the other, and the state
  left behind is the one after the last call; with the default evaluator each batch
  has 8 calls. The sweep does not raise. Its block is absent exactly when fewer than 4
  calls succeeded; with 4 or more the block is present, its overall mean is the
  arithmetic mean of the \<open>overall_creativity\<close> scores of the successful runs, its
  overall std is their sample standard deviation (zero for fewer than two values), and
  each of the six criteria carries the same two statistics of that criterion's scores.
\<close>

theorem sweeps_quorum_and_statistics:
  fixes provider :: "'s LLMProvider"
  shows
  "(let run = run_calls (generate_GenericJudgeOutput provider)
                (map (temperature_request (build_generic_user_prompt pc sj)) (temperature_grid self)) s;
        ok = successes (fst run)
    in length (fst run) = length (temperature_grid self)
       \<and> snd (temperature_sweep self provider sj pc s) = snd run
       \<and> (\<exists>r. fst (temperature_sweep self provider sj pc s) = Inr r
            \<and> (r = None \<longleftrightarrow> length ok < 4)
            \<and> (4 \<le> length ok \<longrightarrow>
                 (\<exists>b. r = Some b
                    \<and> mean (tb_overall b) = arithmetic_mean (overall_scores ok)
                    \<and> std (tb_overall b) = sample_std (overall_scores ok)
                    \<and> (\<forall>(name, field) \<in> set criterion_fields.
                         tb_criteria b name =
                           Some \<lparr>criterion_mean = arithmetic_mean (map (\<lambda>ev. criterion_score (field ev)) ok),
                                 criterion_std = sample_std (map (\<lambda>ev. criterion_score (field ev)) ok)\<rparr>)))))
   \<and> (let run = run_calls (generate_PersonaJudgeOutput provider)
                (map (persona_request self pc sj) (personas self)) s;
        ok = successes (fst run)
    in length (fst run) = length (personas self)
       \<and> snd (persona_sweep self provider sj pc s) = snd run
       \<and> (\<exists>r. fst (persona_sweep self provider sj pc s) = Inr r
            \<and> (r = None \<longleftrightarrow> length ok < 4)
            \<and> (4 \<le> length ok \<longrightarrow>
                 (\<exists>b. r = Some b
                    \<and> mean (pb_overall b) = arithmetic_mean (overall_scores ok)
                    \<and> std (pb_overall b) = sample_std (overall_scores ok)
                    \<and> (\<forall>(name, field) \<in> set criterion_fields.
                         pb_criteria b name =
                           Some \<lparr>criterion_mean = arithmetic_mean (map (\<lambda>ev. criterion_score (field ev)) ok),
                                 criterion_std = sample_std (map (\<lambda>ev. criterion_score (field ev)) ok)\<rparr>)))))
   \<and> length (temperature_grid (CreativityEvaluator_init None pt)) = 8
   \<and> length (personas (CreativityEvaluator_init grid pt)) = 8"
proof -
  define trun where "trun = run_calls (generate_GenericJudgeOutput provider)
                (map (temperature_request (build_generic_user_prompt pc sj)) (temperature_grid self)) s"
  define prun where "prun = run_calls (generate_PersonaJudgeOutput provider)
                (map (persona_request self pc sj) (personas self)) s"
  have tl: "length (fst trun) = length (temperature_grid self)"
    unfolding trun_def by (simp add: length_run_calls)
  have pl: "length (fst prun) = length (personas self)"
    unfolding prun_def by (simp add: length_run_calls)
  have ts: "snd (temperature_sweep self provider sj pc s) = snd trun"
    unfolding trun_def temperature_sweep_spec by simp
  have ps: "snd (persona_sweep self provider sj pc s) = snd prun"
    unfolding prun_def persona_sweep_spec by simp
  have tr: "\<exists>r. fst (temperature_sweep self provider sj pc s) = Inr r
            \<and> (r = None \<longleftrightarrow> length (successes (fst trun)) < 4)
            \<and> (4 \<le> length (successes (fst trun)) \<longrightarrow>
                 (\<exists>b. r = Some b
                    \<and> mean (tb_overall b) = arithmetic_mean (overall_scores (successes (fst trun)))
                    \<and> std (tb_overall b) = sample_std (overall_scores (successes (fst trun)))
                    \<and> (\<forall>(name, field) \<in> set criterion_fields.
                         tb_criteria b name =
                           Some \<lparr>criterion_mean = arithmetic_mean (map (\<lambda>ev. criterion_score (field ev)) (successes (fst trun))),
                                 criterion_std = sample_std (map (\<lambda>ev. criterion_score (field ev)) (successes (fst trun)))\<rparr>)))"
    unfolding trun_def temperature_sweep_spec
    by (auto simp: spec_criteria_lookup)
  have pr: "\<exists>r. fst (persona_sweep self provider sj pc s) = Inr r
            \<and> (r = None \<longleftrightarrow> length (successes (fst prun)) < 4)
            \<and> (4 \<le> length (successes (fst prun)) \<longrightarrow>
                 (\<exists>b. r = Some b
                    \<and> mean (pb_overall b) = arithmetic_mean (overall_scores (successes (fst prun)))
                    \<and> std (pb_overall b) = sample_std (overall_scores (successes (fst prun)))
                    \<and> (\<forall>(name, field) \<in> set criterion_fields.
                         pb_criteria b name =
                           Some \<lparr>criterion_mean = arithmetic_mean (map (\<lambda>ev. criterion_score (field ev)) (successes (fst prun))),
                                 criterion_std = sample_std (map (\<lambda>ev. criterion_score (field ev)) (successes (fst prun)))\<rparr>)))"
    unfolding prun_def persona_sweep_spec
    by (auto simp: spec_criteria_lookup)
  have g: "length (temperature_grid (CreativityEvaluator_init None pt)) = 8"
    "length (personas (CreativityEvaluator_init grid pt)) = 8"
    by (simp_all add: CreativityEvaluator_init_def ALL_PERSONAS_def)
  from tl ts tr pl ps pr g show ?thesis
    unfolding Let_def trun_def prun_def by (intro conjI)
qed

theorem sweeps_quorum_and_statistics_witness:
  "(\<exists>b. fst (temperature_sweep (CreativityEvaluator_init None 0.3) judge_stub JNull [] 0) = Inr (Some b)
       \<and> mean (tb_overall b) = 2 \<and> std (tb_overall b) = sqrt (4 / 3)
       \<and> tb_criteria b ''hook_originality'' = Some \<lparr>criterion_mean = 2, criterion_std = sqrt (4 / 3)\<rparr>
       \<and> tb_criteria b ''platform_fit'' = Some \<lparr>criterion_mean = 2, criterion_std = 0\<rparr>)
   \<and> snd (temperature_sweep (CreativityEvaluator_init None 0.3) judge_stub JNull [] 0) = 8
   \<and> fst (persona_sweep (CreativityEvaluator_init None 0.3) judge_stub JNull [] 0) = Inr None
   \<and> snd (persona_sweep (CreativityEvaluator_init None 0.3) judge_stub JNull [] 0) = 8
   \<and> (\<exists>b. fst (persona_sweep (CreativityEvaluator_init None 0.3) pipeline_stub JNull [] 0) = Inr (Some b)
       \<and> mean (pb_overall b) = 2 \<and> std (pb_overall b) = 0)"
proof -
  let ?E = "CreativityEvaluator_init None 0.3"
  note th = sweeps_quorum_and_statistics
    [where provider = judge_stub and pc = "[]" and sj = JNull and self = ?E and s = 0
      and pt = "0.3" and grid = None]
  have trun: "run_calls (generate_GenericJudgeOutput judge_stub)
      (map (temperature_request (build_generic_user_prompt [] JNull)) (temperature_grid ?E)) 0 =
      ([Inr (stub_judge 1), Inr (stub_judge 3), Inr (stub_judge 1), Inr (stub_judge 3),
        Inl (ProviderError ''timeout''), Inl (ProviderError ''timeout''),
        Inl (ProviderError ''timeout''), Inl (ProviderError ''timeout'')], 8)"
    by (simp add: CreativityEvaluator_init_def judge_stub_def temperature_request_def)
  have prun: "run_calls (generate_PersonaJudgeOutput judge_stub)
      (map (persona_request ?E [] JNull) (personas ?E)) 0 =
      ([Inr (stub_persona_judge 2), Inr (stub_persona_judge 2), Inr (stub_persona_judge 2),
        Inl (ProviderError ''timeout''), Inl (ProviderError ''timeout''),
        Inl (ProviderError ''timeout''), Inl (ProviderError ''timeout''),
        Inl (ProviderError ''timeout'')], 8)"
    by (simp add: CreativityEvaluator_init_def judge_stub_def persona_request_def ALL_PERSONAS_def)
  have hook: "(''hook_originality'', hook_originality) \<in>
      set (criterion_fields :: (string \<times> (GenericJudgeOutput \<Rightarrow> CriterionScore)) list)"
    and fit: "(''platform_fit'', platform_fit) \<in>
      set (criterion_fields :: (string \<times> (GenericJudgeOutput \<Rightarrow> CriterionScore)) list)"
    by (simp_all add: criterion_fields_def)
  have os: "overall_scores [stub_judge 1, stub_judge 3, stub_judge 1, stub_judge 3] = [1, 3, 1, 3]"
    by (simp add: overall_scores_def stub_judge_def)
  from th have t: "\<exists>b. fst (temperature_sweep ?E judge_stub JNull [] 0) = Inr (Some b)
       \<and> mean (tb_overall b) = arithmetic_mean [1, 3, 1, 3]
       \<and> std (tb_overall b) = sample_std [1, 3, 1, 3]
       \<and> (\<forall>(name, field) \<in> set criterion_fields.
             tb_criteria b name =
               Some \<lparr>criterion_mean = arithmetic_mean (map (\<lambda>ev. criterion_score (field ev))
                                         [stub_judge 1, stub_judge 3, stub_judge 1, stub_judge 3]),
                     criterion_std = sample_std (map (\<lambda>ev. criterion_score (field ev))
                                         [stub_judge 1, stub_judge 3, stub_judge 1, stub_judge 3])\<rparr>)"
    unfolding Let_def trun by (clarsimp simp: os)
  then obtain b where b: "fst (temperature_sweep ?E judge_stub JNull [] 0) = Inr (Some b)"
    "mean (tb_overall b) = arithmetic_mean [1, 3, 1, 3]"
    "std (tb_overall b) = sample_std [1, 3, 1, 3]"
    "\<forall>(name, field) \<in> set criterion_fields.
             tb_criteria b name =
               Some \<lparr>criterion_mean = arithmetic_mean (map (\<lambda>ev. criterion_score (field ev))
                                         [stub_judge 1, stub_judge 3, stub_judge 1, stub_judge 3]),
                     criterion_std = sample_std (map (\<lambda>ev. criterion_score (field ev))
                                         [stub_judge 1, stub_judge 3, stub_judge 1, stub_judge 3])\<rparr>"
    by blast
  have m: "arithmetic_mean [1, 3, 1, 3] = 2" "arithmetic_mean [2, 2, 2, 2] = 2"
    by (simp_all add: arithmetic_mean_def)
  have sd: "sample_std [1, 3, 1, 3] = sqrt (4 / 3)" "sample_std [2, 2, 2, 2] = 0"
    by (simp_all add: sample_std_def m)
  have c1: "tb_criteria b ''hook_originality'' = Some \<lparr>criterion_mean = 2, criterion_std = sqrt (4 / 3)\<rparr>"
    using b(4) hook by (auto simp: stub_judge_def m sd)
  have c2: "tb_criteria b ''platform_fit'' = Some \<lparr>criterion_mean = 2, criterion_std = 0\<rparr>"
    using b(4) fit by (auto simp: stub_judge_def m sd)
  from th have ts: "snd (temperature_sweep ?E judge_stub JNull [] 0) = 8"
    unfolding Let_def trun by simp
  from th have p: "fst (persona_sweep ?E judge_stub JNull [] 0) = Inr None
      \<and> snd (persona_sweep ?E judge_stub JNull [] 0) = 8"
    unfolding Let_def prun by auto
  note th2 = sweeps_quorum_and_statistics
    [where provider = pipeline_stub and pc = "[]" and sj = JNull and self = ?E and s = 0
      and pt = "0.3" and grid = None]
  have prun2: "successes (fst (run_calls (generate_PersonaJudgeOutput pipeline_stub)
      (map (persona_request ?E [] JNull) (personas ?E)) 0)) = replicate 8 (stub_persona_judge 2)"
    by (simp add: CreativityEvaluator_init_def pipeline_stub_def persona_request_def ALL_PERSONAS_def
        eval_nat_numeral)
  have os2: "overall_scores (replicate 8 (stub_persona_judge 2)) = replicate 8 2"
    by (simp add: overall_scores_def stub_persona_judge_def stub_judge_def
        GenericJudgeOutput.defs)
  have st2: "arithmetic_mean (replicate 8 2) = 2" "sample_std (replicate 8 2) = 0"
    by (simp_all add: arithmetic_mean_def sample_std_def sum_list_replicate)
  from th2 [THEN conjunct2, THEN conjunct1] have p2: "\<exists>b.
       fst (persona_sweep ?E pipeline_stub JNull [] 0) = Inr (Some b)
       \<and> mean (pb_overall b) = 2 \<and> std (pb_overall b) = 0"
    unfolding Let_def prun2 os2 st2 by (clarsimp simp: os2 st2)
  from b(1,2,3) c1 c2 have t': "\<exists>b. fst (temperature_sweep ?E judge_stub JNull [] 0) = Inr (Some b)
       \<and> mean (tb_overall b) = 2 \<and> std (tb_overall b) = sqrt (4 / 3)
       \<and> tb_criteria b ''hook_originality'' = Some \<lparr>criterion_mean = 2, criterion_std = sqrt (4 / 3)\<rparr>
       \<and> tb_criteria b ''platform_fit'' = Some \<lparr>criterion_mean = 2, criterion_std = 0\<rparr>"
    by (auto simp: m sd)
  from t' ts p p2 show ?thesis by (intro conjI) simp_all
qed

text \<open>
  Claim C2. Aggregation of two optional blocks, each built by the validating
  constructors: with both blocks absent it returns mean 0 and std 0 overall and for
  each of the six criteria, and does not raise; with exactly one block present it
  returns that block's overall statistics and criteria unchanged; with both present,
  each carrying the six criteria, the overall mean and the mean of every criterion are
  the arithmetic mean of the two block means and each std is the greater of the two
  block stds. In every run of \<open>score_script\<close>, whose blocks come from the two sweeps, the
  aggregate is related to the two blocks of the result in this way.
\<close>

theorem aggregate_results_spec:
  "aggregate_results None None =
     Inr \<lparr>overall = \<lparr>mean = 0, std = 0\<rparr>,
          criteria = (\<lambda>name. if name \<in> set criterion_names
                              then Some \<lparr>criterion_mean = 0, criterion_std = 0\<rparr> else None)\<rparr>
   \<and> (TemperatureBlock_valid tb \<longrightarrow>
        aggregate_results (Some tb) None = Inr \<lparr>overall = tb_overall tb, criteria = tb_criteria tb\<rparr>)
   \<and> (PersonaBlock_valid pb \<longrightarrow>
        aggregate_results None (Some pb) = Inr \<lparr>overall = pb_overall pb, criteria = pb_criteria pb\<rparr>)
   \<and> (TemperatureBlock_valid tb \<and> PersonaBlock_valid pb
        \<and> set criterion_names \<subseteq> dom (tb_criteria tb) \<and> set criterion_names \<subseteq> dom (pb_criteria pb) \<longrightarrow>
        (\<exists>agg. aggregate_results (Some tb) (Some pb) = Inr agg
           \<and> mean (overall agg) = (mean (tb_overall tb) + mean (pb_overall pb)) / 2
           \<and> std (overall agg) = max (std (tb_overall tb)) (std (pb_overall pb))
           \<and> (\<forall>name\<in>set criterion_names. \<exists>t p.
                 tb_criteria tb name = Some t \<and> pb_criteria pb name = Some p
                 \<and> criteria agg name =
                     Some \<lparr>criterion_mean = (criterion_mean t + criterion_mean p) / 2,
                           criterion_std = max (criterion_std t) (criterion_std p)\<rparr>)))
   \<and> (\<exists>r. fst (score_script self provider script pc s) = Inr r
         \<and> aggregate_as_specified (car_temperature_block r) (car_persona_block r) (car_aggregate r))"
proof -
  have one: "TemperatureBlock_valid tb \<longrightarrow>
        aggregate_results (Some tb) None = Inr \<lparr>overall = tb_overall tb, criteria = tb_criteria tb\<rparr>"
    by (simp add: TemperatureBlock_valid_def aggregate_results_temperature_only)
  have two: "PersonaBlock_valid pb \<longrightarrow>
        aggregate_results None (Some pb) = Inr \<lparr>overall = pb_overall pb, criteria = pb_criteria pb\<rparr>"
    by (simp add: PersonaBlock_valid_def aggregate_results_persona_only)
  have both: "\<exists>agg. aggregate_results (Some tb) (Some pb) = Inr agg
           \<and> mean (overall agg) = (mean (tb_overall tb) + mean (pb_overall pb)) / 2
           \<and> std (overall agg) = max (std (tb_overall tb)) (std (pb_overall pb))
           \<and> (\<forall>name\<in>set criterion_names. \<exists>t p.
                 tb_criteria tb name = Some t \<and> pb_criteria pb name = Some p
                 \<and> criteria agg name =
                     Some \<lparr>criterion_mean = (criterion_mean t + criterion_mean p) / 2,
                           criterion_std = max (criterion_std t) (criterion_std p)\<rparr>)"
    if v: "TemperatureBlock_valid tb" "PersonaBlock_valid pb"
      and d: "set criterion_names \<subseteq> dom (tb_criteria tb)" "set criterion_names \<subseteq> dom (pb_criteria pb)"
  proof -
    have "\<exists>t p. tb_criteria tb name = Some t \<and> pb_criteria pb name = Some p
          \<and> (if name \<in> set criterion_names then
                 Some \<lparr>criterion_mean =
                         (criterion_mean (the (tb_criteria tb name)) + criterion_mean (the (pb_criteria pb name))) / 2,
                       criterion_std =
                         max (criterion_std (the (tb_criteria tb name))) (criterion_std (the (pb_criteria pb name)))\<rparr>
               else None) =
              Some \<lparr>criterion_mean = (criterion_mean t + criterion_mean p) / 2,
                           criterion_std = max (criterion_std t) (criterion_std p)\<rparr>"
      if n: "name \<in> set criterion_names" for name
    proof -
      from n d obtain t p where "tb_criteria tb name = Some t" "pb_criteria pb name = Some p"
        by blast
      with n show ?thesis by simp
    qed
    then show ?thesis
      unfolding aggregate_results_both [OF v d] by simp
  qed
  from aggregate_results_none one two both score_script_as_specified [of self provider script pc s]
  show ?thesis by blast
qed

theorem aggregate_results_spec_witness:
  "(\<exists>agg. aggregate_results (Some stub_temperature_block) (Some stub_persona_block) = Inr agg
      \<and> mean (overall agg) = 2.2 \<and> std (overall agg) = 0.3
      \<and> criteria agg ''hook_originality'' = Some \<lparr>criterion_mean = 2.2, criterion_std = 0.3\<rparr>)
   \<and> aggregate_results (Some stub_temperature_block) None =
       Inr \<lparr>overall = \<lparr>mean = 2.0, std = 0.1\<rparr>, criteria = tb_criteria stub_temperature_block\<rparr>
   \<and> aggregate_results None (Some stub_persona_block) =
       Inr \<lparr>overall = \<lparr>mean = 2.4, std = 0.3\<rparr>, criteria = pb_criteria stub_persona_block\<rparr>
   \<and> (\<exists>r. fst (score_script (CreativityEvaluator_init None 0.3) judge_stub (Other_content JNull) [] 0) = Inr r
         \<and> aggregate_as_specified (car_temperature_block r) (car_persona_block r) (car_aggregate r))"
proof -
  note th = aggregate_results_spec [where tb = stub_temperature_block and pb = stub_persona_block
      and self = "CreativityEvaluator_init None 0.3" and provider = judge_stub
      and script = "Other_content JNull" and pc = "[]" and s = 0]
  note both = th [THEN conjunct2, THEN conjunct2, THEN conjunct2, THEN conjunct1, THEN mp]
  note temp = th [THEN conjunct2, THEN conjunct1, THEN mp, OF stub_blocks_valid(1)]
  note pers = th [THEN conjunct2, THEN conjunct2, THEN conjunct1, THEN mp, OF stub_blocks_valid(2)]
  note prog = th [THEN conjunct2, THEN conjunct2, THEN conjunct2, THEN conjunct2]
  have h: "''hook_originality'' \<in> set criterion_names" by (simp add: criterion_names_def)
  have pre: "TemperatureBlock_valid stub_temperature_block \<and> PersonaBlock_valid stub_persona_block
        \<and> set criterion_names \<subseteq> dom (tb_criteria stub_temperature_block)
        \<and> set criterion_names \<subseteq> dom (pb_criteria stub_persona_block)"
    using stub_blocks_valid by simp
  from both [OF pre] obtain agg where
    a: "aggregate_results (Some stub_temperature_block) (Some stub_persona_block) = Inr agg"
      "mean (overall agg) = (mean (tb_overall stub_temperature_block) + mean (pb_overall stub_persona_block)) / 2"
      "std (overall agg) = max (std (tb_overall stub_temperature_block)) (std (pb_overall stub_persona_block))"
      "\<forall>name\<in>set criterion_names. \<exists>t p.
                 tb_criteria stub_temperature_block name = Some t \<and> pb_criteria stub_persona_block name = Some p
                 \<and> criteria agg name =
                     Some \<lparr>criterion_mean = (criterion_mean t + criterion_mean p) / 2,
                           criterion_std = max (criterion_std t) (criterion_std p)\<rparr>"
    by (elim exE conjE)
  from a(4) h have c: "criteria agg ''hook_originality'' = Some \<lparr>criterion_mean = 2.2, criterion_std = 0.3\<rparr>"
    by (auto simp: stub_temperature_block_def stub_persona_block_def)
  from a(2,3) have o: "mean (overall agg) = 2.2" "std (overall agg) = 0.3"
    by (simp_all add: stub_temperature_block_def stub_persona_block_def)
  from a(1) c o have A: "\<exists>agg. aggregate_results (Some stub_temperature_block) (Some stub_persona_block) = Inr agg
      \<and> mean (overall agg) = 2.2 \<and> std (overall agg) = 0.3
      \<and> criteria agg ''hook_originality'' = Some \<lparr>criterion_mean = 2.2, criterion_std = 0.3\<rparr>"
    by (intro exI [of _ agg] conjI)
  from temp have B: "aggregate_results (Some stub_temperature_block) None =
       Inr \<lparr>overall = \<lparr>mean = 2.0, std = 0.1\<rparr>, criteria = tb_criteria stub_temperature_block\<rparr>"
    by (simp add: stub_temperature_block_def)
  from pers have C: "aggregate_results None (Some stub_persona_block) =
       Inr \<lparr>overall = \<lparr>mean = 2.4, std = 0.3\<rparr>, criteria = pb_criteria stub_persona_block\<rparr>"
    by (simp add: stub_persona_block_def)
  from A B C prog show ?thesis by (intro conjI)
qed

text \<open>
  Claim C10. Whatever blocks are present or absent, the aggregate has a criteria
  mapping whose keys are exactly the six criterion names, each with a std that is not
  negative: for aggregation applied to blocks that carry exactly the six criteria
  with valid statistics, and for the aggregate of every run of \<open>score_script\<close>, whose
  blocks come from the two sweeps.
\<close>

theorem aggregate_criteria_invariant:
  "((\<forall>b. tb = Some b \<longrightarrow> TemperatureBlock_valid b \<and> dom (tb_criteria b) = set criterion_names)
      \<and> (\<forall>b. pb = Some b \<longrightarrow> PersonaBlock_valid b \<and> dom (pb_criteria b) = set criterion_names)
    \<longrightarrow> (\<exists>agg. aggregate_results tb pb = Inr agg
           \<and> dom (criteria agg) =
               {''hook_originality'', ''visual_creativity'', ''narrative_originality'',
                ''entertainment_value'', ''brand_integration'', ''platform_fit''}
           \<and> (\<forall>name cs. criteria agg name = Some cs \<longrightarrow> 0 \<le> criterion_std cs)))
   \<and> (\<exists>r. fst (score_script self provider script pc s) = Inr r
         \<and> dom (criteria (car_aggregate r)) =
               {''hook_originality'', ''visual_creativity'', ''narrative_originality'',
                ''entertainment_value'', ''brand_integration'', ''platform_fit''}
         \<and> (\<forall>name cs. criteria (car_aggregate r) name = Some cs \<longrightarrow> 0 \<le> criterion_std cs))"
proof -
  have A: "\<exists>agg. aggregate_results tb pb = Inr agg
           \<and> dom (criteria agg) =
               {''hook_originality'', ''visual_creativity'', ''narrative_originality'',
                ''entertainment_value'', ''brand_integration'', ''platform_fit''}
           \<and> (\<forall>name cs. criteria agg name = Some cs \<longrightarrow> 0 \<le> criterion_std cs)"
    if "\<forall>b. tb = Some b \<longrightarrow> TemperatureBlock_valid b \<and> dom (tb_criteria b) = set criterion_names"
      and "\<forall>b. pb = Some b \<longrightarrow> PersonaBlock_valid b \<and> dom (pb_criteria b) = set criterion_names"
    using aggregate_results_invariant [OF that] unfolding set_criterion_names by blast
  have B: "\<exists>r. fst (score_script self provider script pc s) = Inr r
         \<and> dom (criteria (car_aggregate r)) =
               {''hook_originality'', ''visual_creativity'', ''narrative_originality'',
                ''entertainment_value'', ''brand_integration'', ''platform_fit''}
         \<and> (\<forall>name cs. criteria (car_aggregate r) name = Some cs \<longrightarrow> 0 \<le> criterion_std cs)"
    using score_script_Inr [of self provider script pc s] unfolding set_criterion_names
    by force
  from A B show ?thesis by blast
qed

theorem aggregate_criteria_invariant_witness:
  "(\<exists>agg. aggregate_results (Some stub_temperature_block) None = Inr agg
      \<and> dom (criteria agg) =
               {''hook_originality'', ''visual_creativity'', ''narrative_originality'',
                ''entertainment_value'', ''brand_integration'', ''platform_fit''}
      \<and> criteria agg ''platform_fit'' = Some \<lparr>criterion_mean = 2.0, criterion_std = 0.1\<rparr>)
   \<and> (\<exists>r. fst (score_script (CreativityEvaluator_init None 0.3) judge_stub (Other_content JNull) [] 0) = Inr r
         \<and> dom (criteria (car_aggregate r)) =
               {''hook_originality'', ''visual_creativity'', ''narrative_originality'',
                ''entertainment_value'', ''brand_integration'', ''platform_fit''})"
proof -
  define six where "six = {''hook_originality'', ''visual_creativity'', ''narrative_originality'',
                ''entertainment_value'', ''brand_integration'', ''platform_fit''}"
  note th = aggregate_criteria_invariant [where tb = "Some stub_temperature_block" and pb = None
      and self = "CreativityEvaluator_init None 0.3" and provider = judge_stub
      and script = "Other_content JNull" and pc = "[]" and s = 0, folded six_def]
  have pre: "\<forall>b. Some stub_temperature_block = Some b \<longrightarrow>
      TemperatureBlock_valid b \<and> dom (tb_criteria b) = set criterion_names"
    "\<forall>b. (None :: PersonaBlock option) = Some b \<longrightarrow>
      PersonaBlock_valid b \<and> dom (pb_criteria b) = set criterion_names"
    using stub_blocks_valid by simp_all
  have single: "aggregate_results (Some stub_temperature_block) None =
       Inr \<lparr>overall = \<lparr>mean = 2.0, std = 0.1\<rparr>, criteria = tb_criteria stub_temperature_block\<rparr>"
    by (simp add: aggregate_results_def mk_EvaluationStats_def bind_err_def stub_temperature_block_def)
  have fit: "tb_criteria stub_temperature_block ''platform_fit'' =
      Some \<lparr>criterion_mean = 2.0, criterion_std = 0.1\<rparr>"
    by (simp add: stub_temperature_block_def criterion_names_def)
  from th [THEN conjunct1, THEN mp, OF conjI [OF pre]] obtain agg where
    r: "aggregate_results (Some stub_temperature_block) None = Inr agg"
    and d: "dom (criteria agg) = six"
    by (elim exE conjE)
  from r single have "criteria agg = tb_criteria stub_temperature_block" by auto
  then have "criteria agg ''platform_fit'' = Some \<lparr>criterion_mean = 2.0, criterion_std = 0.1\<rparr>"
    by (simp only: fit)
  with r d have A: "\<exists>agg. aggregate_results (Some stub_temperature_block) None = Inr agg
      \<and> dom (criteria agg) = six
      \<and> criteria agg ''platform_fit'' = Some \<lparr>criterion_mean = 2.0, criterion_std = 0.1\<rparr>"
    by (intro exI [of _ agg] conjI)
  from th [THEN conjunct2] obtain res where
    "fst (score_script (CreativityEvaluator_init None 0.3) judge_stub (Other_content JNull) [] 0) = Inr res"
    "dom (criteria (car_aggregate res)) = six"
    by (elim exE conjE)
  then have B: "\<exists>r. fst (score_script (CreativityEvaluator_init None 0.3) judge_stub (Other_content JNull) [] 0) = Inr r
         \<and> dom (criteria (car_aggregate r)) = six"
    by (intro exI [of _ res] conjI)
  from A B show ?thesis unfolding six_def by (rule conjI)
qed


section \<open>Properties of the generator, the engine and the serialization\<close>

lemma ideate_registered:
  assumes "get_content_definition reg ct = Inr defn" and "get_params config = Inr params"
  shows "ideate reg config provider pc ct refs s =
     (case generate_IdeationOutput provider (ideation_request defn params pc refs) s of
        (Inl e, s') \<Rightarrow> (Inl e, s')
      | (Inr ideation_output, s') \<Rightarrow> (Inr (io_concepts ideation_output), s'))"
  by (simp add: ideate_def assms)

text \<open>
  Claim C5. For a registered content type, when the ideation call of the provider
  fails, \<open>generate\<close> raises that error, and when the call returns an empty list of
  concepts, \<open>generate\<close> raises a \<open>ValueError\<close>; in both cases the state of the world is
  the one left by the ideation call, so no judge call and no drafting call was made,
  and the result is an error, not a \<open>GenerationResult\<close>.
\<close>

theorem generate_hard_stop:
  assumes "get_content_definition reg ct = Inr defn" and "get_params config = Inr params"
  shows "(generate_IdeationOutput provider (ideation_request defn params pc refs) s = (Inl e, s')
            \<longrightarrow> generate reg config provider u pc ct refs s = (Inl e, s'))
       \<and> (generate_IdeationOutput provider (ideation_request defn params pc refs) s = (Inr out, s')
              \<and> io_concepts out = []
            \<longrightarrow> generate reg config provider u pc ct refs s =
                  (Inl (ValueError ''Ideation phase returned no concepts. Please try again or adjust creativity parameters.''), s'))"
  by (simp add: generate_def ideate_registered [OF assms])

lemma generate_unregistered:
  assumes "reg ct = None"
  shows "generate reg config provider u pc ct refs s = (Inl (ValueError ''Content type is not registered.''), s)"
proof -
  obtain params where "get_params config = Inr params" using get_params_Inr by blast
  then show ?thesis
    by (simp add: generate_def ideate_def get_content_definition_def assms)
qed

lemma stub_params:
  "get_params stub_config =
     Inr \<lparr>temperature = 0.96, top_p = 0.88, num_branches = 6, ep_quality_threshold = 0.75\<rparr>"
  by (simp add: get_params_def stub_config_def map_creativity_def mk_EngineParameters_def
      py_round_def round_half_even_def py_int_def Let_def)

lemma registry_video:
  "get_content_definition CONTENT_REGISTRY VIDEO_SCRIPT =
     Inr \<lparr>ideation_system_prompt = ''VIDEO_IDEATION_SYSTEM'',
         ideation_user_prompt_template = ''VIDEO_IDEATION_USER_TEMPLATE'',
         judge_system_prompt = ''VIDEO_JUDGE_SYSTEM'',
         judge_user_prompt_template = ''VIDEO_JUDGE_USER_TEMPLATE'',
         writing_system_prompt = ''VIDEO_WRITING_SYSTEM'',
         writing_user_prompt_template = ''VIDEO_WRITING_USER_TEMPLATE'',
         output_schema = ''VideoScript''\<rparr>"
  by (simp add: get_content_definition_def CONTENT_REGISTRY_def)

theorem generate_hard_stop_witness:
  "generate CONTENT_REGISTRY stub_config judge_stub ''u'' [] VIDEO_SCRIPT None 0 =
     (Inl (ProviderError ''unavailable''), 1)
   \<and> generate CONTENT_REGISTRY stub_config empty_ideation_stub ''u'' [] VIDEO_SCRIPT None 0 =
     (Inl (ValueError ''Ideation phase returned no concepts. Please try again or adjust creativity parameters.''), 1)"
proof -
  have a: "generate CONTENT_REGISTRY stub_config judge_stub ''u'' [] VIDEO_SCRIPT None 0 =
     (Inl (ProviderError ''unavailable''), 1)"
    using generate_hard_stop [OF registry_video stub_params, of judge_stub "[]" None 0
        "ProviderError ''unavailable''" 1 "''u''"]
    by (simp add: judge_stub_def)
  have b: "generate CONTENT_REGISTRY stub_config empty_ideation_stub ''u'' [] VIDEO_SCRIPT None 0 =
     (Inl (ValueError ''Ideation phase returned no concepts. Please try again or adjust creativity parameters.''), 1)"
    using generate_hard_stop [OF registry_video stub_params, of empty_ideation_stub "[]" None 0
        _ 1 "''u''" "\<lparr>io_concepts = []\<rparr>"]
    by (simp add: empty_ideation_stub_def judge_stub_def)
  from a b show ?thesis by (rule conjI)
qed

text \<open>
  Claim C7, amended. For a request with \<open>evaluate_creativity = True\<close> whose generation
  succeeds: when the content type is not the video script, the evaluation is skipped
  and the result carries the generation result with no evaluation; when the content
  type is the video script and the evaluation raises, the error is caught and the
  result again carries the generation result with no evaluation. Generation, and with
  it the request, raises a \<open>ValueError\<close> for a content type that is not registered, and
  the registry of the module holds the video script only.
\<close>

theorem engine_evaluation_best_effort:
  "(generate reg config provider u pc ct refs s = (Inr g, s1) \<longrightarrow>
      (ct \<noteq> VIDEO_SCRIPT \<longrightarrow>
         engine_generate_with ev reg config provider u pc ct refs True s =
           (Inr \<lparr>generation = g, evaluation = None, uuid = gr_generation_uuid g\<rparr>, s1))
      \<and> (ct = VIDEO_SCRIPT \<and> ev (gr_content g) pc s1 = (Inl e, s2) \<longrightarrow>
         engine_generate_with ev reg config provider u pc ct refs True s =
           (Inr \<lparr>generation = g, evaluation = None, uuid = gr_generation_uuid g\<rparr>, s2)))
   \<and> (reg ct = None \<longrightarrow>
        engine_generate_with ev reg config provider u pc ct refs True s =
          (Inl (ValueError ''Content type is not registered.''), s))
   \<and> (CONTENT_REGISTRY ct = None \<longleftrightarrow> ct \<noteq> VIDEO_SCRIPT)"
proof -
  have A: "(ct \<noteq> VIDEO_SCRIPT \<longrightarrow>
         engine_generate_with ev reg config provider u pc ct refs True s =
           (Inr \<lparr>generation = g, evaluation = None, uuid = gr_generation_uuid g\<rparr>, s1))
      \<and> (ct = VIDEO_SCRIPT \<and> ev (gr_content g) pc s1 = (Inl e, s2) \<longrightarrow>
         engine_generate_with ev reg config provider u pc ct refs True s =
           (Inr \<lparr>generation = g, evaluation = None, uuid = gr_generation_uuid g\<rparr>, s2))"
    if gen: "generate reg config provider u pc ct refs s = (Inr g, s1)"
  proof (intro conjI impI)
    assume "ct \<noteq> VIDEO_SCRIPT"
    then show "engine_generate_with ev reg config provider u pc ct refs True s =
           (Inr \<lparr>generation = g, evaluation = None, uuid = gr_generation_uuid g\<rparr>, s1)"
      by (simp add: engine_generate_with_def gen)
  next
    assume "ct = VIDEO_SCRIPT \<and> ev (gr_content g) pc s1 = (Inl e, s2)"
    then have v: "ct = VIDEO_SCRIPT" and r: "ev (gr_content g) pc s1 = (Inl e, s2)" by simp_all
    show "engine_generate_with ev reg config provider u pc ct refs True s =
           (Inr \<lparr>generation = g, evaluation = None, uuid = gr_generation_uuid g\<rparr>, s2)"
      unfolding engine_generate_with_def gen by (simp add: v r)
  qed
  have B: "engine_generate_with ev reg config provider u pc ct refs True s =
          (Inl (ValueError ''Content type is not registered.''), s)" if "reg ct = None"
    using that by (simp add: engine_generate_with_def generate_unregistered [of reg ct])
  have C: "CONTENT_REGISTRY ct = None \<longleftrightarrow> ct \<noteq> VIDEO_SCRIPT"
    by (simp add: CONTENT_REGISTRY_def)
  from A B C show ?thesis by blast
qed

text \<open>
  Claim C7 as stated fails: with the registry of the module, a request for a LinkedIn
  post with \<open>evaluate_creativity = True\<close> raises a \<open>ValueError\<close> in the ideation step,
  before any provider call, instead of returning a result without evaluation.
\<close>

theorem engine_skip_counterexample:
  "engine_generate CONTENT_REGISTRY stub_config pipeline_stub ''u'' [] LINKEDIN_POST None True 0 =
     (Inl (ValueError ''Content type is not registered.''), 0)"
  by (simp add: engine_generate_def engine_generate_with_def generate_def ideate_def stub_params
      get_content_definition_def CONTENT_REGISTRY_def)

lemma pipeline_generate_post:
  "generate extended_registry stub_config pipeline_stub ''1700000000_0a1b2c3d''
     [(''name'', JStr ''Acme'')] LINKEDIN_POST None 0 =
     (Inr (stub_generation\<lparr>gr_content_type := LINKEDIN_POST\<rparr>), 4)"
  by (simp add: generate_def ideate_def stub_params get_content_definition_def extended_registry_def
      CONTENT_REGISTRY_def pipeline_stub_def judge_all_concepts_def judge_concept_def
      select_best_concept_def py_max_by_def sc_quality_score_def draft_content_def
      stub_generation_def Let_def)

lemma pipeline_generate_video:
  "generate CONTENT_REGISTRY stub_config pipeline_stub ''1700000000_0a1b2c3d''
     [(''name'', JStr ''Acme'')] VIDEO_SCRIPT None 0 =
     (Inr stub_generation, 4)"
  by (simp add: generate_def ideate_def stub_params get_content_definition_def
      CONTENT_REGISTRY_def pipeline_stub_def judge_all_concepts_def judge_concept_def
      select_best_concept_def py_max_by_def sc_quality_score_def draft_content_def
      stub_generation_def Let_def)

theorem engine_evaluation_best_effort_witness:
  "engine_generate_with raising_score_script extended_registry stub_config pipeline_stub
       ''1700000000_0a1b2c3d'' [(''name'', JStr ''Acme'')] LINKEDIN_POST None True 0 =
     (Inr \<lparr>generation = stub_generation\<lparr>gr_content_type := LINKEDIN_POST\<rparr>, evaluation = None,
           uuid = ''1700000000_0a1b2c3d''\<rparr>, 4)
   \<and> engine_generate_with raising_score_script CONTENT_REGISTRY stub_config pipeline_stub
       ''1700000000_0a1b2c3d'' [(''name'', JStr ''Acme'')] VIDEO_SCRIPT None True 0 =
     (Inr \<lparr>generation = stub_generation, evaluation = None, uuid = ''1700000000_0a1b2c3d''\<rparr>, 5)
   \<and> engine_generate_with raising_score_script CONTENT_REGISTRY stub_config pipeline_stub
       ''1700000000_0a1b2c3d'' [(''name'', JStr ''Acme'')] LINKEDIN_POST None True 0 =
     (Inl (ValueError ''Content type is not registered.''), 0)"
proof -
  have a: "engine_generate_with raising_score_script extended_registry stub_config pipeline_stub
       ''1700000000_0a1b2c3d'' [(''name'', JStr ''Acme'')] LINKEDIN_POST None True 0 =
     (Inr \<lparr>generation = stub_generation\<lparr>gr_content_type := LINKEDIN_POST\<rparr>, evaluation = None,
           uuid = ''1700000000_0a1b2c3d''\<rparr>, 4)"
    using engine_evaluation_best_effort [where reg = extended_registry and config = stub_config
        and provider = pipeline_stub and u = "''1700000000_0a1b2c3d''"
        and pc = "[(''name'', JStr ''Acme'')]" and ct = LINKEDIN_POST and refs = None and s = 0
        and g = "stub_generation\<lparr>gr_content_type := LINKEDIN_POST\<rparr>" and ?s1.0 = 4
        and ev = raising_score_script]
      pipeline_generate_post
    by (simp add: stub_generation_def)
  have b: "engine_generate_with raising_score_script CONTENT_REGISTRY stub_config pipeline_stub
       ''1700000000_0a1b2c3d'' [(''name'', JStr ''Acme'')] VIDEO_SCRIPT None True 0 =
     (Inr \<lparr>generation = stub_generation, evaluation = None, uuid = ''1700000000_0a1b2c3d''\<rparr>, 5)"
    using engine_evaluation_best_effort [where reg = CONTENT_REGISTRY and config = stub_config
        and provider = pipeline_stub and u = "''1700000000_0a1b2c3d''"
        and pc = "[(''name'', JStr ''Acme'')]" and ct = VIDEO_SCRIPT and refs = None and s = 0
        and g = stub_generation and ?s1.0 = 4 and ev = raising_score_script
        and e = "ValueError ''evaluation failed''" and ?s2.0 = 5]
      pipeline_generate_video
    by (simp add: stub_generation_def raising_score_script_def)
  have c: "engine_generate_with raising_score_script CONTENT_REGISTRY stub_config pipeline_stub
       ''1700000000_0a1b2c3d'' [(''name'', JStr ''Acme'')] LINKEDIN_POST None True 0 =
     (Inl (ValueError ''Content type is not registered.''), 0)"
    using engine_evaluation_best_effort [where reg = CONTENT_REGISTRY and ct = LINKEDIN_POST
        and ev = raising_score_script and config = stub_config and provider = pipeline_stub
        and u = "''1700000000_0a1b2c3d''" and pc = "[(''name'', JStr ''Acme'')]" and refs = None and s = 0]
    by (simp add: CONTENT_REGISTRY_def)
  from a b c show ?thesis by (intro conjI)
qed

lemma Audio_roundtrip: "Audio_validate (Audio_model_dump a) = Inr a"
  by (cases "music a"; cases "sfx a")
     (simp_all add: Audio_model_dump_def dump_opt_str_def field_optional_def bind_err_def)

lemma validate_opt_str_dump: "validate_opt_str (dump_opt_str x) = Inr x"
  by (cases x) (simp_all add: dump_opt_str_def)

lemma VideoMeta_roundtrip:
  "platform m \<in> set platform_literals \<Longrightarrow> VideoMeta_validate (VideoMeta_model_dump m) = Inr m"
  by (simp add: VideoMeta_model_dump_def field_required_def validate_literal_def bind_err_def)

lemma Scene_roundtrip:
  assumes "Scene_valid sc"
  shows "Scene_validate (Scene_model_dump sc) = Inr sc"
proof -
  from assms have v: "0 \<le> start_sec sc" "0 \<le> end_sec sc" "role sc \<in> set role_literals"
    by (simp_all add: Scene_valid_def)
  show ?thesis
    unfolding Scene_model_dump_def
    by (simp add: field_required_def field_optional_def validate_literal_def validate_ge0_def
        bind_err_def v validate_opt_str_dump Audio_roundtrip)
qed

lemma scenes_roundtrip:
  "list_all Scene_valid scs \<Longrightarrow> validate_list Scene_validate (map Scene_model_dump scs) = Inr scs"
  by (induction scs) (simp_all add: Scene_roundtrip bind_err_def)

lemma VideoScript_roundtrip:
  assumes "VideoScript_valid v"
  shows "VideoScript_validate (VideoScript_model_dump v) = Inr v"
proof -
  from assms have p: "platform (video_meta v) \<in> set platform_literals"
    and s: "list_all Scene_valid (scenes v)"
    by (simp_all add: VideoScript_valid_def)
  show ?thesis
    unfolding VideoScript_model_dump_def
    by (simp add: field_required_def bind_err_def VideoMeta_roundtrip [OF p] scenes_roundtrip [OF s])
qed

lemma to_dict_generated_content:
  "map_of (to_dict now iso_now g) ''generated_content'' = Some (model_dump (gr_content g))"
  by (simp add: to_dict_def)

text \<open>
  Claim C8. For a generation result whose drafted content is a video script built by
  the validating constructor, the entry \<open>generated_content\<close> of \<open>to_dict\<close>, validated
  against the \<open>VideoScript\<close> schema, gives back the drafted script, equal in every
  field.
\<close>

theorem to_dict_roundtrip:
  "gr_content g = VideoScript_content v \<and> VideoScript_valid v \<longrightarrow>
     (\<exists>d. map_of (to_dict now iso_now g) ''generated_content'' = Some d
         \<and> VideoScript_validate d = Inr v)"
  by (simp add: to_dict_generated_content VideoScript_roundtrip)

theorem to_dict_roundtrip_witness:
  "\<exists>d. map_of (to_dict 1700000000 ''2023-11-14 22:13:20'' stub_generation) ''generated_content'' = Some d
       \<and> VideoScript_validate d = Inr stub_script"
proof -
  have c: "gr_content stub_generation = VideoScript_content stub_script"
    by (simp add: stub_generation_def)
  have v: "VideoScript_valid stub_script"
    by (simp add: VideoScript_valid_def Scene_valid_def stub_script_def platform_literals_def
        role_literals_def)
  from to_dict_roundtrip [of stub_generation stub_script 1700000000 "''2023-11-14 22:13:20''"] c v
  show ?thesis by blast
qed

end
